theory Spec2Isabelle
  imports Complex_Main "HOL-Library.AList" "HOL-Library.Sublist"
begin

section \<open>Python values, exceptions and containers\<close>

text \<open>
  The scripts under \<^verbatim>\<open>industry_benchmarks/utils\<close> are modelled as pure functions.
  \<^item> A Python \<^verbatim>\<open>float\<close> is a \<^typ>\<open>real\<close>: the comparisons and additions of the code are
    those of the reals, the rounding of binary floating point and the values
    \<^verbatim>\<open>nan\<close> and \<^verbatim>\<open>inf\<close> are outside the model.
  \<^item> The builtin \<^verbatim>\<open>float(s)\<close> is a parameter \<open>fl :: string \<Rightarrow> real option\<close>;
    \<open>None\<close> is the \<^verbatim>\<open>ValueError\<close> of a malformed field.
  \<^item> A file read through \<^verbatim>\<open>csv.reader\<close> is the list of its rows, each row the list
    of its fields, the header row first.
  \<^item> A \<^verbatim>\<open>dict\<close> is an association list with distinct keys in insertion order;
    \<^verbatim>\<open>d[k] = v\<close> is \<^const>\<open>AList.update\<close>, which overwrites in place or appends.
  \<^item> An exception is a value of \<open>py_error\<close>; a function that may raise returns
    \<open>py_error + 'a\<close>, with \<open>Inl\<close> for the exception.
\<close>

datatype value_error =
    NotInList string       \<comment> \<open>\<^verbatim>\<open>list.index(x)\<close>: x is not in list\<close>
  | FloatSyntax string     \<comment> \<open>\<^verbatim>\<open>float(s)\<close>: could not convert string to float\<close>
  | Library string         \<comment> \<open>a \<^verbatim>\<open>ValueError\<close>, or an exception of a subclass of it, raised
                               inside an external library\<close>

datatype py_error =
    ValueError value_error
  | IndexError
  | KeyError string
  | StopIteration
  | ZeroDivisionError
  | RuntimeError string
  | FileNotFoundError string
  | OtherError string      \<comment> \<open>an exception of an external library that is no \<^verbatim>\<open>ValueError\<close>\<close>

definition bind_err :: "py_error + 'a \<Rightarrow> ('a \<Rightarrow> py_error + 'b) \<Rightarrow> py_error + 'b" where
  "bind_err m f = (case m of Inl e \<Rightarrow> Inl e | Inr x \<Rightarrow> f x)"

definition py_index :: "'a list \<Rightarrow> nat \<Rightarrow> py_error + 'a" where
  \<comment> \<open>\<^verbatim>\<open>row[i]\<close> for an index that is not negative\<close>
  "py_index xs i = (if i < length xs then Inr (xs ! i) else Inl IndexError)"

definition py_float :: "(string \<Rightarrow> real option) \<Rightarrow> string \<Rightarrow> py_error + real" where
  "py_float fl s = (case fl s of None \<Rightarrow> Inl (ValueError (FloatSyntax s)) | Some x \<Rightarrow> Inr x)"

section \<open>The calculated-data reader\<close>

record calc_entry =
  ligand_i :: string
  ligand_j :: string
  ddG :: real
  ddG_err :: real

type_synonym calc_data = "(string \<times> calc_entry) list"

definition calc_tag :: "string \<Rightarrow> string \<Rightarrow> string" where
  "calc_tag a b = a @ ''->'' @ b"

definition padding_warning :: "string \<Rightarrow> string" where
  "padding_warning tag =
     ''Calculated standard deviation for '' @ tag @ '' is less than 0.01 - adding 0.01 padding''"

text \<open>
  One iteration of the loop of \<^verbatim>\<open>get_calc_data\<close> (lines 74 to 84). The state is the
  dictionary built so far and the warnings given to \<^verbatim>\<open>warnings.warn\<close> so far.
\<close>

definition calc_row ::
  "(string \<Rightarrow> real option) \<Rightarrow> string list \<Rightarrow> calc_data \<times> string list
     \<Rightarrow> py_error + (calc_data \<times> string list)" where
  "calc_row fl row st =
     bind_err (py_index row 0) (\<lambda>a.
     bind_err (py_index row 1) (\<lambda>b.
     bind_err (py_index row 2) (\<lambda>s2.
     bind_err (py_float fl s2) (\<lambda>g.
     bind_err (py_index row 3) (\<lambda>s3.
     bind_err (py_float fl s3) (\<lambda>err.
       let tag = calc_tag a b;
           entry = \<lparr>ligand_i = a, ligand_j = b, ddG = g, ddG_err = err\<rparr>
       in if err < 0.01
          then Inr (AList.update tag (entry\<lparr>ddG_err := err + 0.01\<rparr>) (fst st),
                    snd st @ [padding_warning tag])
          else Inr (AList.update tag entry (fst st), snd st)))))))"

text \<open>
  The loop and the reader. When a row raises, the warnings given before it have been given
  already: the error comes with them.
\<close>

fun calc_rows ::
  "(string \<Rightarrow> real option) \<Rightarrow> string list list \<Rightarrow> calc_data \<times> string list
     \<Rightarrow> (py_error \<times> string list) + (calc_data \<times> string list)" where
  "calc_rows fl [] st = Inr st"
| "calc_rows fl (row # rest) st =
     (case calc_row fl row st of
        Inl e \<Rightarrow> Inl (e, snd st)
      | Inr st' \<Rightarrow> calc_rows fl rest st')"

definition get_calc_data ::
  "(string \<Rightarrow> real option) \<Rightarrow> string list list
     \<Rightarrow> (py_error \<times> string list) + (calc_data \<times> string list)" where
  "get_calc_data fl file =
     (case file of
        [] \<Rightarrow> Inl (StopIteration, [])
      | headers # rows \<Rightarrow> calc_rows fl rows ([], []))"

text \<open>What the reader needs of a row to get through it: four fields, two of them numbers.\<close>

definition calc_row_ok :: "(string \<Rightarrow> real option) \<Rightarrow> string list \<Rightarrow> bool" where
  "calc_row_ok fl row \<longleftrightarrow>
     4 \<le> length row \<and> \<not> Option.is_none (fl (row ! 2)) \<and> \<not> Option.is_none (fl (row ! 3))"

definition row_tag :: "string list \<Rightarrow> string" where
  "row_tag row = calc_tag (row ! 0) (row ! 1)"

text \<open>Whether the reader pads the row, and the entry it stores for the row.\<close>

definition padded :: "(string \<Rightarrow> real option) \<Rightarrow> string list \<Rightarrow> bool" where
  "padded fl row \<longleftrightarrow> the (fl (row ! 3)) < 0.01"

definition stored_entry :: "(string \<Rightarrow> real option) \<Rightarrow> string list \<Rightarrow> calc_entry" where
  "stored_entry fl row =
     \<lparr>ligand_i = row ! 0, ligand_j = row ! 1, ddG = the (fl (row ! 2)),
      ddG_err = (if padded fl row then the (fl (row ! 3)) + 0.01 else the (fl (row ! 3)))\<rparr>"

text \<open>A fragment of the grammar of \<^verbatim>\<open>float\<close>, enough for the examples below.\<close>

definition sample_float :: "string \<Rightarrow> real option" where
  "sample_float s =
     (if s = ''0.003'' then Some 0.003
      else if s = ''0.02'' then Some 0.02
      else if s = ''0.5'' then Some 0.5
      else if s = ''1.0'' then Some 1
      else if s = ''-9.5'' then Some (-9.5)
      else if s = ''-10.0'' then Some (-10)
      else if s = ''-8.0'' then Some (-8)
      else None)"

section \<open>The experimental-data reader\<close>

record exp_entry =
  exp_dG :: real
  exp_dG_err :: real
  fep_dG :: real
  fep_dG_err :: real

type_synonym exp_data = "(string \<times> exp_entry) list"

fun index_of :: "'a list \<Rightarrow> 'a \<Rightarrow> nat option" where
  "index_of [] x = None"
| "index_of (y # ys) x = (if y = x then Some 0 else map_option Suc (index_of ys x))"

definition list_index :: "string list \<Rightarrow> string \<Rightarrow> py_error + nat" where
  \<comment> \<open>\<^verbatim>\<open>headers.index(x)\<close>: the first position of x, or \<^verbatim>\<open>ValueError\<close>\<close>
  "list_index xs x =
     (case index_of xs x of None \<Rightarrow> Inl (ValueError (NotInList x)) | Some i \<Rightarrow> Inr i)"

text \<open>The column positions that lines 32 to 39 of \<^verbatim>\<open>get_exp_data\<close> read off the header.\<close>

record exp_columns =
  name_idx :: nat
  exp_dg_idx :: nat
  exp_dg_error_idx :: "nat option"
  fep_dg_idx :: nat
  fep_dg_error_idx :: nat

definition exp_header :: "string list \<Rightarrow> py_error + exp_columns" where
  "exp_header headers =
     bind_err (list_index headers ''Ligand name'') (\<lambda>n.
     bind_err (list_index headers ''Exp. dG (kcal/mol)'') (\<lambda>e.
     bind_err (case list_index headers ''Exp. dG error (kcal/mol)'' of
                 Inl (ValueError v) \<Rightarrow> Inr None
               | Inl x \<Rightarrow> Inl x
               | Inr i \<Rightarrow> Inr (Some i)) (\<lambda>ee.
     bind_err (list_index headers ''Pred. dG (kcal/mol)'') (\<lambda>f.
     bind_err (list_index headers ''Pred. dG std. error (kcal/mol)'') (\<lambda>fe.
       Inr \<lparr>name_idx = n, exp_dg_idx = e, exp_dg_error_idx = ee,
            fep_dg_idx = f, fep_dg_error_idx = fe\<rparr>)))))"

definition float_field :: "(string \<Rightarrow> real option) \<Rightarrow> string list \<Rightarrow> nat \<Rightarrow> py_error + real" where
  \<comment> \<open>\<^verbatim>\<open>float(row[i])\<close>\<close>
  "float_field fl row i = bind_err (py_index row i) (py_float fl)"

text \<open>One iteration of the loop of \<^verbatim>\<open>get_exp_data\<close> (lines 42 to 50).\<close>

definition exp_row ::
  "(string \<Rightarrow> real option) \<Rightarrow> exp_columns \<Rightarrow> string list \<Rightarrow> exp_data \<Rightarrow> py_error + exp_data" where
  "exp_row fl c row d =
     bind_err (py_index row (name_idx c)) (\<lambda>name.
     bind_err (float_field fl row (exp_dg_idx c)) (\<lambda>e.
     bind_err (case exp_dg_error_idx c of
                 Some k \<Rightarrow> float_field fl row k
               | None \<Rightarrow> Inr 0) (\<lambda>ee.
     bind_err (float_field fl row (fep_dg_idx c)) (\<lambda>f.
     bind_err (float_field fl row (fep_dg_error_idx c)) (\<lambda>fe.
       Inr (AList.update name
              \<lparr>exp_dG = e, exp_dG_err = ee, fep_dG = f, fep_dG_err = fe\<rparr> d))))))"

fun exp_rows ::
  "(string \<Rightarrow> real option) \<Rightarrow> exp_columns \<Rightarrow> string list list \<Rightarrow> exp_data
     \<Rightarrow> py_error + exp_data" where
  "exp_rows fl c [] d = Inr d"
| "exp_rows fl c (row # rest) d =
     (case exp_row fl c row d of Inl e \<Rightarrow> Inl e | Inr d' \<Rightarrow> exp_rows fl c rest d')"

definition get_exp_data :: "(string \<Rightarrow> real option) \<Rightarrow> string list list \<Rightarrow> py_error + exp_data" where
  "get_exp_data fl file =
     (case file of
        [] \<Rightarrow> Inl StopIteration
      | headers # rows \<Rightarrow> bind_err (exp_header headers) (\<lambda>c. exp_rows fl c rows []))"

definition required_columns :: "string list" where
  "required_columns =
     [''Ligand name'', ''Exp. dG (kcal/mol)'', ''Pred. dG (kcal/mol)'',
      ''Pred. dG std. error (kcal/mol)'']"

definition numeric_columns :: "string list" where
  "numeric_columns =
     [''Exp. dG (kcal/mol)'', ''Exp. dG error (kcal/mol)'', ''Pred. dG (kcal/mol)'',
      ''Pred. dG std. error (kcal/mol)'']"

text \<open>The name and the entry that a row of the experimental file stands for.\<close>

definition column :: "string list \<Rightarrow> string \<Rightarrow> nat" where
  "column headers x = the (index_of headers x)"

definition exp_name :: "string list \<Rightarrow> string list \<Rightarrow> string" where
  "exp_name headers row = row ! column headers ''Ligand name''"

definition exp_entry_of :: "(string \<Rightarrow> real option) \<Rightarrow> string list \<Rightarrow> string list \<Rightarrow> exp_entry" where
  "exp_entry_of fl headers row =
     \<lparr>exp_dG = the (fl (row ! column headers ''Exp. dG (kcal/mol)'')),
      exp_dG_err =
        (if ''Exp. dG error (kcal/mol)'' \<in> set headers
         then the (fl (row ! column headers ''Exp. dG error (kcal/mol)'')) else 0),
      fep_dG = the (fl (row ! column headers ''Pred. dG (kcal/mol)'')),
      fep_dG_err = the (fl (row ! column headers ''Pred. dG std. error (kcal/mol)''))\<rparr>"

definition exp_cols :: "string list \<Rightarrow> exp_columns" where
  "exp_cols headers =
     \<lparr>name_idx = column headers ''Ligand name'',
      exp_dg_idx = column headers ''Exp. dG (kcal/mol)'',
      exp_dg_error_idx =
        (if ''Exp. dG error (kcal/mol)'' \<in> set headers
         then Some (column headers ''Exp. dG error (kcal/mol)'') else None),
      fep_dg_idx = column headers ''Pred. dG (kcal/mol)'',
      fep_dg_error_idx = column headers ''Pred. dG std. error (kcal/mol)''\<rparr>"

text \<open>What the reader needs of a row: the name field, and a number in every numeric column.\<close>

definition numeric_ok :: "(string \<Rightarrow> real option) \<Rightarrow> string list \<Rightarrow> string list \<Rightarrow> string \<Rightarrow> bool" where
  "numeric_ok fl headers row col \<longleftrightarrow>
     column headers col < length row \<and> \<not> Option.is_none (fl (row ! column headers col))"

definition exp_row_ok :: "(string \<Rightarrow> real option) \<Rightarrow> string list \<Rightarrow> string list \<Rightarrow> bool" where
  "exp_row_ok fl headers row \<longleftrightarrow>
     column headers ''Ligand name'' < length row \<and>
     list_all (\<lambda>col. col \<in> set headers \<longrightarrow> numeric_ok fl headers row col) numeric_columns"

section \<open>The free-energy map and the plot reports\<close>

text \<open>
  The \<^verbatim>\<open>cinnabar\<close> library is outside the repository. The plot functions see an
  \<^verbatim>\<open>FEMap\<close> only through \<^verbatim>\<open>femap.to_legacy_graph().nodes(data=True)\<close>: the list of
  the nodes of the graph, each a name with a dictionary of attributes. The two plotting
  calls of the library are parameters that say whether the call raises; the calls made
  are recorded as events, in order. The keyword arguments that are the same in every call
  of \<^verbatim>\<open>_master_plot\<close> (quantity, bootstrap flags, statistic type, figure size, axis
  limits) are left out of \<open>plot_args\<close>.
\<close>

type_synonym node = "string \<times> (string \<times> real) list"

type_synonym femap = "node list"

record plot_args =
  x_data :: "real list"
  y_data :: "real list"
  xerr :: "real list"
  yerr :: "real list"
  xlabel :: string
  ylabel :: string
  statistics :: "string list"
  title :: string
  filename :: string
  shift :: "real option"
  origins :: "bool option"
  method_name :: "string option"
  target_name :: "string option"

datatype event =
    Warn string
  | Echo string
  | PlotDDGs femap string
  | MasterPlot plot_args

datatype label = Ground | Ligand string

record measurement =
  labelA :: label
  labelB :: string
  DG :: real
  uncertainty :: real
  computational :: bool

record cinnabar =
  plot_DDGs :: "femap \<Rightarrow> string \<Rightarrow> py_error option"
  master_plot :: "plot_args \<Rightarrow> py_error option"
  absolute_values :: "measurement list \<Rightarrow> py_error + femap"

type_synonym outcome = "event list \<times> py_error option"

definition get_femap :: "cinnabar \<Rightarrow> exp_data \<Rightarrow> calc_data \<Rightarrow> py_error + femap" where
  \<comment> \<open>the measurements of lines 114 to 132, handed to the library in the order of lines 137 to 143\<close>
  "get_femap env exp_data calc_data =
     absolute_values env
       (map (\<lambda>(entry, e). \<lparr>labelA = Ground, labelB = entry, DG = exp_dG e,
                            uncertainty = exp_dG_err e, computational = False\<rparr>) exp_data @
        map (\<lambda>(entry, c). \<lparr>labelA = Ligand (ligand_i c), labelB = ligand_j c, DG = ddG c,
                            uncertainty = ddG_err c, computational = True\<rparr>) calc_data)"

definition py_mean :: "real list \<Rightarrow> py_error + real" where
  \<comment> \<open>\<^verbatim>\<open>sum(xs) / len(xs)\<close>\<close>
  "py_mean xs =
     (if length xs = 0 then Inl ZeroDivisionError else Inr (sum_list xs / real (length xs)))"

definition np_mean :: "real list \<Rightarrow> real" where
  \<comment> \<open>\<^verbatim>\<open>np.mean(xs)\<close>; of an empty array numpy gives \<^verbatim>\<open>nan\<close> with a warning, and the
      value is then subtracted from no element\<close>
  "np_mean xs = sum_list xs / real (length xs)"

definition centre :: "real list \<Rightarrow> real \<Rightarrow> real list" where
  \<comment> \<open>\<^verbatim>\<open>xs - np.mean(xs) + shift\<close>\<close>
  "centre xs s = map (\<lambda>v. v - np_mean xs + s) xs"

definition node_field :: "node \<Rightarrow> string \<Rightarrow> py_error + real" where
  \<comment> \<open>\<^verbatim>\<open>node[1][key]\<close>\<close>
  "node_field n key = (case map_of (snd n) key of None \<Rightarrow> Inl (KeyError key) | Some v \<Rightarrow> Inr v)"

fun collect :: "('a \<Rightarrow> py_error + 'b) \<Rightarrow> 'a list \<Rightarrow> py_error + 'b list" where
  \<comment> \<open>a list comprehension whose element expression may raise\<close>
  "collect f [] = Inr []"
| "collect f (x # xs) = bind_err (f x) (\<lambda>y. bind_err (collect f xs) (\<lambda>ys. Inr (y # ys)))"

definition plot_femap :: "cinnabar \<Rightarrow> femap \<Rightarrow> exp_data \<Rightarrow> string \<Rightarrow> string \<Rightarrow> string list \<Rightarrow> outcome" where
  "plot_femap env femap exp_data ddg_filename dg_filename stats =
     (case plot_DDGs env femap ddg_filename of
        Some e \<Rightarrow> ([PlotDDGs femap ddg_filename], Some e)
      | None \<Rightarrow>
          (case
             bind_err (py_mean (map (\<lambda>i. exp_dG (snd i)) exp_data)) (\<lambda>sh.
             bind_err (collect (\<lambda>n. node_field n ''exp_DG'') femap) (\<lambda>xs.
             bind_err (collect (\<lambda>n. node_field n ''calc_DG'') femap) (\<lambda>ys.
             bind_err (collect (\<lambda>n. node_field n ''exp_dDG'') femap) (\<lambda>xe.
             bind_err (collect (\<lambda>n. node_field n ''calc_dDG'') femap) (\<lambda>ye.
               Inr \<lparr>x_data = centre xs sh, y_data = centre ys sh, xerr = xe, yerr = ye,
                    xlabel = ''experimental'', ylabel = ''openfe'', statistics = stats,
                    title = ''Experiment vs OpenFE'', filename = dg_filename,
                    shift = None, origins = Some False, method_name = Some [],
                    target_name = Some []\<rparr>)))))
           of
             Inl e \<Rightarrow> ([PlotDDGs femap ddg_filename], Some e)
           | Inr a \<Rightarrow> ([PlotDDGs femap ddg_filename, MasterPlot a], master_plot env a)))"

definition plot_schrodinger_comparison :: "cinnabar \<Rightarrow> exp_data \<Rightarrow> string \<Rightarrow> string list \<Rightarrow> outcome" where
  "plot_schrodinger_comparison env exp_data fname stats =
     (case py_mean (map (\<lambda>i. exp_dG (snd i)) exp_data) of
        Inl e \<Rightarrow> ([], Some e)
      | Inr sh \<Rightarrow>
          (let a = \<lparr>x_data = map (\<lambda>i. exp_dG (snd i)) exp_data,
                    y_data = map (\<lambda>i. fep_dG (snd i)) exp_data,
                    xerr = map (\<lambda>i. exp_dG_err (snd i)) exp_data,
                    yerr = map (\<lambda>i. fep_dG_err (snd i)) exp_data,
                    xlabel = ''experimental'', ylabel = ''fep+'', statistics = stats,
                    title = ''Experiment vs FEP+'', filename = fname,
                    shift = Some sh, origins = None, method_name = None, target_name = None\<rparr>
           in ([MasterPlot a], master_plot env a)))"

text \<open>The five lists that the loop of \<^verbatim>\<open>plot_openfe_schrodinger_comparison\<close> fills.\<close>

record paired =
  fep :: "real list"
  fep_err :: "real list"
  dg_openfe :: "real list"
  openfe_err :: "real list"
  exp :: "real list"

definition openfe_step :: "femap \<Rightarrow> string \<times> exp_entry \<Rightarrow> paired \<Rightarrow> py_error + paired" where
  \<comment> \<open>lines 291 to 298, for one entry of the experimental data\<close>
  "openfe_step openfe_nodes entry p =
     (case filter (\<lambda>node. fst node = fst entry) openfe_nodes of
        [] \<Rightarrow> Inr p
      | node # others \<Rightarrow>
          bind_err (node_field node ''calc_DG'') (\<lambda>dg.
          bind_err (node_field node ''calc_dDG'') (\<lambda>err.
          bind_err (node_field node ''exp_DG'') (\<lambda>x.
            Inr \<lparr>fep = fep p @ [fep_dG (snd entry)],
                 fep_err = fep_err p @ [fep_dG_err (snd entry)],
                 dg_openfe = dg_openfe p @ [dg],
                 openfe_err = openfe_err p @ [err],
                 exp = exp p @ [x]\<rparr>))))"

fun openfe_loop :: "femap \<Rightarrow> exp_data \<Rightarrow> paired \<Rightarrow> py_error + paired" where
  "openfe_loop openfe_nodes [] p = Inr p"
| "openfe_loop openfe_nodes (entry # rest) p =
     (case openfe_step openfe_nodes entry p of
        Inl e \<Rightarrow> Inl e
      | Inr p' \<Rightarrow> openfe_loop openfe_nodes rest p')"

definition plot_openfe_schrodinger_comparison ::
  "cinnabar \<Rightarrow> femap \<Rightarrow> exp_data \<Rightarrow> string \<Rightarrow> string list \<Rightarrow> outcome" where
  "plot_openfe_schrodinger_comparison env femap exp_data fname stats =
     (case
        bind_err (openfe_loop femap exp_data
                    \<lparr>fep = [], fep_err = [], dg_openfe = [], openfe_err = [], exp = []\<rparr>) (\<lambda>p.
        bind_err (py_mean (exp p)) (\<lambda>sh.
          Inr \<lparr>x_data = fep p, y_data = centre (dg_openfe p) sh,
               xerr = fep_err p, yerr = openfe_err p,
               xlabel = ''FEP+'', ylabel = ''OpenFE'', statistics = stats,
               title = ''FEP+ vs OpenFE'', filename = fname,
               shift = None, origins = None, method_name = None, target_name = None\<rparr>))
      of
        Inl e \<Rightarrow> ([], Some e)
      | Inr a \<Rightarrow> ([MasterPlot a], master_plot env a))"

section \<open>The command \<^verbatim>\<open>run\<close>\<close>

record plot_files =
  ddg_plot_filename :: string
  dg_plot_filename :: string
  dg_fepplus_plot_filename :: string
  dg_openfe_fepplus_plot_filename :: string

definition default_statistics :: "string list" where
  "default_statistics = [''RMSE'', ''MUE'', ''R2'', ''rho'']"

definition reduced_statistics :: "string list" where
  "reduced_statistics = [''RMSE'', ''MUE'']"

definition notice :: string where
  "notice = ''Correlation statistics (R2 and rho) for DG plots cannot be'' @
            '' calculated due to small sample size.''"

definition then_do :: "outcome \<Rightarrow> outcome \<Rightarrow> outcome" where
  \<comment> \<open>two statements in sequence: the second runs if the first returns\<close>
  "then_do p q = (case snd p of Some e \<Rightarrow> p | None \<Rightarrow> (fst p @ fst q, snd q))"

definition plot_batch :: "cinnabar \<Rightarrow> femap \<Rightarrow> exp_data \<Rightarrow> plot_files \<Rightarrow> string list \<Rightarrow> outcome" where
  "plot_batch env femap exp_data files stats =
     then_do (plot_femap env femap exp_data (ddg_plot_filename files) (dg_plot_filename files) stats)
    (then_do (plot_schrodinger_comparison env exp_data (dg_fepplus_plot_filename files) stats)
             (plot_openfe_schrodinger_comparison env femap exp_data
                (dg_openfe_fepplus_plot_filename files) stats))"

definition run_plots :: "cinnabar \<Rightarrow> femap \<Rightarrow> exp_data \<Rightarrow> plot_files \<Rightarrow> outcome" where
  \<comment> \<open>the \<^verbatim>\<open>try\<close> statement of lines 395 to 410\<close>
  "run_plots env femap exp_data files =
     (case plot_batch env femap exp_data files default_statistics of
        (tr, Some (ValueError v)) \<Rightarrow>
          then_do (tr @ [Echo notice], None) (plot_batch env femap exp_data files reduced_statistics)
      | (tr, r) \<Rightarrow> (tr, r))"

definition run ::
  "cinnabar \<Rightarrow> (string \<Rightarrow> real option) \<Rightarrow> string list list \<Rightarrow> string list list \<Rightarrow> plot_files
     \<Rightarrow> outcome" where
  "run env fl experiment calculated files =
     (case get_exp_data fl experiment of
        Inl e \<Rightarrow> ([], Some e)
      | Inr exp_data \<Rightarrow>
          (case get_calc_data fl calculated of
             Inl (e, w) \<Rightarrow> (map Warn w, Some e)
           | Inr (calc_data, w) \<Rightarrow>
               (case get_femap env exp_data calc_data of
                  Inl e \<Rightarrow> (map Warn w, Some e)
                | Inr femap \<Rightarrow> then_do (map Warn w, None) (run_plots env femap exp_data files))))"

section \<open>The renaming utility\<close>

text \<open>
  The \<^verbatim>\<open>pandas\<close> library is outside the repository: reading and writing a CSV file are
  parameters. A CSV file is the list of its rows of fields, the header row first. A
  data frame is the list of its rows, each row the list of its cells under the column
  names; a cell is a string, a number (known by the text that \<^verbatim>\<open>str\<close> gives for it) or
  the missing value. The name mapping is the dictionary that \<^verbatim>\<open>json.load\<close> returns. The
  file system maps a path to the CSV file there. \<^verbatim>\<open>DataFrame.apply\<close> with \<^verbatim>\<open>axis=1\<close>
  calls the function on the rows in order and stops at the first exception; on a frame
  without rows it returns a frame instead of a series, and what the assignment of line 53
  does then is left to \<^verbatim>\<open>pandas\<close>: the properties below are about frames with a row.
\<close>

datatype cell = Text string | Number string | NaN

type_synonym series = "(string \<times> cell) list"

type_synonym dataframe = "series list"

type_synonym csv_file = "string list list"

record pandas =
  read_csv :: "csv_file \<Rightarrow> py_error + dataframe"
  to_csv :: "dataframe \<Rightarrow> csv_file"

fun py_str :: "cell \<Rightarrow> string" where
  "py_str (Text s) = s"
| "py_str (Number s) = s"
| "py_str NaN = ''nan''"

definition series_get :: "series \<Rightarrow> string \<Rightarrow> py_error + cell" where
  \<comment> \<open>\<^verbatim>\<open>row[col]\<close>\<close>
  "series_get row col = (case map_of row col of None \<Rightarrow> Inl (KeyError col) | Some c \<Rightarrow> Inr c)"

definition conversion_error :: "string \<Rightarrow> string" where
  "conversion_error v =
     ''Could not convert '' @ v @ '' as it was not found in the name mapping.''"

definition rename :: "(string \<rightharpoonup> string) \<Rightarrow> series \<Rightarrow> py_error + string" where
  \<comment> \<open>the function \<^verbatim>\<open>_rename\<close> of lines 47 to 51\<close>
  "rename name_mapping row =
     (case bind_err (series_get row ''Ligand Name'') (\<lambda>c.
             case name_mapping (py_str c) of
               None \<Rightarrow> Inl (KeyError (py_str c))
             | Some new \<Rightarrow> Inr new)
      of
        Inl (KeyError k) \<Rightarrow>
          bind_err (series_get row ''Ligand Name'') (\<lambda>c.
            Inl (RuntimeError (conversion_error (py_str c))))
      | Inl e \<Rightarrow> Inl e
      | Inr new \<Rightarrow> Inr new)"

definition set_column :: "string \<Rightarrow> cell list \<Rightarrow> dataframe \<Rightarrow> dataframe" where
  \<comment> \<open>\<^verbatim>\<open>df[col] = values\<close>: the column is replaced where it stands, or added at the end\<close>
  "set_column col values df = map2 (\<lambda>row v. AList.update col v row) df values"

definition main ::
  "pandas \<Rightarrow> (string \<rightharpoonup> csv_file) \<Rightarrow> string \<Rightarrow> (string \<rightharpoonup> string) \<Rightarrow> string
     \<Rightarrow> (string \<rightharpoonup> csv_file) \<times> py_error option" where
  "main pd fs experimental_data name_mapping output =
     (case fs experimental_data of
        None \<Rightarrow> (fs, Some (FileNotFoundError experimental_data))
      | Some content \<Rightarrow>
          (case read_csv pd content of
             Inl e \<Rightarrow> (fs, Some e)
           | Inr exp_csv \<Rightarrow>
               (case collect (rename name_mapping) exp_csv of
                  Inl e \<Rightarrow> (fs, Some e)
                | Inr names \<Rightarrow>
                    (fs(output \<mapsto> to_csv pd (set_column ''Ligand Name'' (map Text names) exp_csv)),
                     None))))"

text \<open>The name cell of a row, whether the mapping has it, and the row after renaming.\<close>

definition ligand_name :: "series \<Rightarrow> string" where
  "ligand_name row = py_str (the (map_of row ''Ligand Name''))"

definition mapped :: "(string \<rightharpoonup> string) \<Rightarrow> series \<Rightarrow> bool" where
  "mapped name_mapping row \<longleftrightarrow>
     \<not> Option.is_none (map_of row ''Ligand Name'') \<and>
     \<not> Option.is_none (name_mapping (ligand_name row))"

definition renamed :: "(string \<rightharpoonup> string) \<Rightarrow> series \<Rightarrow> series" where
  "renamed name_mapping row =
     AList.update ''Ligand Name'' (Text (the (name_mapping (ligand_name row)))) row"

text \<open>
  Examples of what \<^verbatim>\<open>pandas\<close> does: \<open>text_pandas\<close> reads every field as a string;
  \<open>numeric_pandas\<close> reads the field \<^verbatim>\<open>1.50\<close> as the number 1.5, which is written
  back as \<^verbatim>\<open>1.5\<close>.
\<close>

definition frame_of :: "(string \<Rightarrow> cell) \<Rightarrow> csv_file \<Rightarrow> py_error + dataframe" where
  "frame_of parse file =
     (case file of
        [] \<Rightarrow> Inl (OtherError ''EmptyDataError'')
      | header # rows \<Rightarrow> Inr (map (\<lambda>fields. zip header (map parse fields)) rows))"

definition file_of :: "dataframe \<Rightarrow> csv_file" where
  "file_of df =
     (case df of
        [] \<Rightarrow> []
      | row # rows \<Rightarrow> map fst row # map (map (\<lambda>c. py_str (snd c))) df)"

definition text_pandas :: pandas where
  "text_pandas = \<lparr>read_csv = frame_of Text, to_csv = file_of\<rparr>"

definition numeric_pandas :: pandas where
  "numeric_pandas =
     \<lparr>read_csv = frame_of (\<lambda>s. if s = ''1.50'' then Number ''1.5'' else Text s),
      to_csv = file_of\<rparr>"

section \<open>Notions used to state the properties of the plot reports\<close>

definition in_graph :: "femap \<Rightarrow> string \<times> exp_entry \<Rightarrow> bool" where
  "in_graph openfe_nodes entry \<longleftrightarrow> fst entry \<in> fst ` set openfe_nodes"

definition matched :: "femap \<Rightarrow> exp_data \<Rightarrow> exp_data" where
  \<comment> \<open>the entries of the experimental data whose ligand is a node of the graph\<close>
  "matched openfe_nodes exp_data = filter (in_graph openfe_nodes) exp_data"

definition node_value :: "femap \<Rightarrow> string \<Rightarrow> string \<times> exp_entry \<Rightarrow> real" where
  \<comment> \<open>the attribute of the first node of the graph that has the name of the entry\<close>
  "node_value openfe_nodes key entry =
     the (map_of (snd (hd (filter (\<lambda>node. fst node = fst entry) openfe_nodes))) key)"

definition node_complete :: "femap \<Rightarrow> string \<times> exp_entry \<Rightarrow> bool" where
  "node_complete openfe_nodes entry \<longleftrightarrow>
     list_all (\<lambda>key. \<not> Option.is_none
                 (map_of (snd (hd (filter (\<lambda>node. fst node = fst entry) openfe_nodes))) key))
       [''calc_DG'', ''calc_dDG'', ''exp_DG'']"

definition openfe_args :: "femap \<Rightarrow> exp_data \<Rightarrow> string \<Rightarrow> string list \<Rightarrow> plot_args" where
  \<comment> \<open>the third-party comparison, said with the matched entries instead of the loop\<close>
  "openfe_args openfe_nodes exp_data fname stats =
     \<lparr>x_data = map (\<lambda>e. fep_dG (snd e)) (matched openfe_nodes exp_data),
      y_data = centre (map (node_value openfe_nodes ''calc_DG'') (matched openfe_nodes exp_data))
                 (sum_list (map (node_value openfe_nodes ''exp_DG'')
                              (matched openfe_nodes exp_data)) /
                  real (length (matched openfe_nodes exp_data))),
      xerr = map (\<lambda>e. fep_dG_err (snd e)) (matched openfe_nodes exp_data),
      yerr = map (node_value openfe_nodes ''calc_dDG'') (matched openfe_nodes exp_data),
      xlabel = ''FEP+'', ylabel = ''OpenFE'', statistics = stats,
      title = ''FEP+ vs OpenFE'', filename = fname,
      shift = None, origins = None, method_name = None, target_name = None\<rparr>"

definition exp_mean :: "exp_data \<Rightarrow> real" where
  \<comment> \<open>the arithmetic mean of the experimental dG of all the ligands of the experimental data\<close>
  "exp_mean exp_data = sum_list (map (\<lambda>i. exp_dG (snd i)) exp_data) / real (length exp_data)"

fun master_plots :: "event list \<Rightarrow> plot_args list" where
  "master_plots [] = []"
| "master_plots (MasterPlot a # tr) = a # master_plots tr"
| "master_plots (ev # tr) = master_plots tr"

fun echoes :: "event list \<Rightarrow> string list" where
  "echoes [] = []"
| "echoes (Echo m # tr) = m # echoes tr"
| "echoes (ev # tr) = echoes tr"

fun ddg_plots :: "event list \<Rightarrow> string list" where
  "ddg_plots [] = []"
| "ddg_plots (PlotDDGs g f # tr) = f # ddg_plots tr"
| "ddg_plots (ev # tr) = ddg_plots tr"

text \<open>
  Examples: a library whose \<^verbatim>\<open>_master_plot\<close> raises \<^verbatim>\<open>ValueError\<close> when asked for a
  correlation statistic on fewer than three points, a graph with the single node
  \<^verbatim>\<open>lig1\<close>, and experimental data for \<^verbatim>\<open>lig1\<close> and \<^verbatim>\<open>lig2\<close>.
\<close>

definition small_sample_env :: cinnabar where
  "small_sample_env =
     \<lparr>plot_DDGs = (\<lambda>g f. None),
      master_plot = (\<lambda>a. if length (x_data a) < 3 \<and>
                             (''R2'' \<in> set (statistics a) \<or> ''rho'' \<in> set (statistics a))
                          then Some (ValueError (Library ''small sample'')) else None),
      absolute_values = (\<lambda>ms. Inr [])\<rparr>"

definition quiet_env :: cinnabar where
  \<comment> \<open>a library that never raises\<close>
  "quiet_env =
     \<lparr>plot_DDGs = (\<lambda>g f. None), master_plot = (\<lambda>a. None), absolute_values = (\<lambda>ms. Inr [])\<rparr>"

definition failing_env :: cinnabar where
  \<comment> \<open>a library whose \<^verbatim>\<open>_master_plot\<close> always raises \<^verbatim>\<open>ValueError\<close>\<close>
  "failing_env =
     \<lparr>plot_DDGs = (\<lambda>g f. None),
      master_plot = (\<lambda>a. Some (ValueError (Library ''no statistics''))),
      absolute_values = (\<lambda>ms. Inr [])\<rparr>"

definition sample_femap :: femap where
  "sample_femap =
     [(''lig1'', [(''calc_DG'', - 9.5), (''calc_dDG'', 0.5), (''exp_DG'', - 10), (''exp_dDG'', 0)])]"

definition sample_exp_data :: exp_data where
  "sample_exp_data =
     [(''lig1'', \<lparr>exp_dG = - 10, exp_dG_err = 0, fep_dG = - 9, fep_dG_err = 0.02\<rparr>),
      (''lig2'', \<lparr>exp_dG = - 8, exp_dG_err = 0, fep_dG = - 7, fep_dG_err = 0.02\<rparr>)]"

definition unmatched_exp_data :: exp_data where
  \<comment> \<open>experimental data none of whose ligands is a node of \<open>sample_femap\<close>\<close>
  "unmatched_exp_data =
     [(''lig2'', \<lparr>exp_dG = - 8, exp_dG_err = 0, fep_dG = - 7, fep_dG_err = 0.02\<rparr>)]"

definition sample_files :: plot_files where
  "sample_files =
     \<lparr>ddg_plot_filename = ''openfe_experiment_ddg.png'',
      dg_plot_filename = ''openfe_experiment_dg.png'',
      dg_fepplus_plot_filename = ''schrodinger_experiment_dg.png'',
      dg_openfe_fepplus_plot_filename = ''openfe_schrodinger_dg.png''\<rparr>"

section \<open>Properties of the calculated-data reader\<close>

lemma sample_float_simps:
  "sample_float ''0.003'' = Some 0.003"
  "sample_float ''0.02'' = Some 0.02"
  "sample_float ''0.5'' = Some 0.5"
  "sample_float ''1.0'' = Some 1"
  "sample_float ''-9.5'' = Some (-9.5)"
  "sample_float ''-10.0'' = Some (-10)"
  "sample_float ''-8.0'' = Some (-8)"
  by (simp_all add: sample_float_def)

lemma calc_row_ok_step:
  assumes "calc_row_ok fl row"
  shows "calc_row fl row st =
           Inr (AList.update (row_tag row) (stored_entry fl row) (fst st),
                if padded fl row then snd st @ [padding_warning (row_tag row)] else snd st)"
  using assms
  by (auto simp: calc_row_ok_def calc_row_def bind_err_def py_index_def py_float_def
      row_tag_def stored_entry_def padded_def Let_def Option.is_none_def)

lemma calc_row_Inr_ok:
  assumes "calc_row fl row st = Inr st'"
  shows "calc_row_ok fl row"
  using assms
  by (auto simp: calc_row_ok_def calc_row_def bind_err_def py_index_def py_float_def
      split: if_splits option.splits)

lemma calc_rows_total:
  assumes "\<forall>row \<in> set rows. calc_row_ok fl row"
  shows "\<exists>st'. calc_rows fl rows st = Inr st'"
  using assms
proof (induction rows arbitrary: st)
  case Nil
  show ?case by simp
next
  case (Cons row rest)
  then have "calc_row_ok fl row" by simp
  from calc_row_ok_step [OF this] obtain st1 where "calc_row fl row st = Inr st1"
    by blast
  with Cons show ?case by simp
qed

lemma calc_rows_Inr_ok:
  assumes "calc_rows fl rows st = Inr st'"
  shows "\<forall>row \<in> set rows. calc_row_ok fl row"
  using assms
proof (induction rows arbitrary: st)
  case Nil
  show ?case by simp
next
  case (Cons row rest)
  then show ?case
    by (auto split: sum.splits dest: calc_row_Inr_ok)
qed

lemma calc_row_stored:
  assumes "calc_row fl row st = Inr st'"
  shows "fst st' = AList.update (row_tag row) (stored_entry fl row) (fst st)"
    and "snd st' = (if padded fl row then snd st @ [padding_warning (row_tag row)] else snd st)"
  using assms calc_row_ok_step [OF calc_row_Inr_ok [OF assms], of st]
  by auto

lemma calc_rows_other_tag:
  assumes "calc_rows fl rows st = Inr st'"
    and "\<forall>row \<in> set rows. row_tag row \<noteq> t"
  shows "map_of (fst st') t = map_of (fst st) t"
  using assms
proof (induction rows arbitrary: st)
  case Nil
  then show ?case by simp
next
  case (Cons row rest)
  from Cons.prems(1) obtain st1 where
    s1: "calc_row fl row st = Inr st1" and r: "calc_rows fl rest st1 = Inr st'"
    by (auto split: sum.splits)
  have "map_of (fst st') t = map_of (fst st1) t"
    using Cons.IH [OF r] Cons.prems(2) by simp
  also have "\<dots> = map_of (fst st) t"
    using calc_row_stored(1) [OF s1] Cons.prems(2) by (auto simp: update_conv')
  finally show ?case .
qed

lemma calc_rows_lookup:
  assumes "calc_rows fl rows st = Inr st'"
    and "i < length rows"
    and "\<forall>j. i < j \<and> j < length rows \<longrightarrow> row_tag (rows ! j) \<noteq> row_tag (rows ! i)"
  shows "map_of (fst st') (row_tag (rows ! i)) = Some (stored_entry fl (rows ! i))"
  using assms
proof (induction rows arbitrary: st i)
  case Nil
  then show ?case by simp
next
  case (Cons row rest)
  from Cons.prems(1) obtain st1 where
    s1: "calc_row fl row st = Inr st1" and r: "calc_rows fl rest st1 = Inr st'"
    by (auto split: sum.splits)
  show ?case
  proof (cases i)
    case 0
    have "\<forall>r \<in> set rest. row_tag r \<noteq> row_tag row"
    proof
      fix r assume "r \<in> set rest"
      then obtain k where "k < length rest" "rest ! k = r"
        by (auto simp: in_set_conv_nth)
      with Cons.prems(3) [rule_format, of "Suc k"] 0 show "row_tag r \<noteq> row_tag row"
        by simp
    qed
    from calc_rows_other_tag [OF r this]
    have "map_of (fst st') (row_tag row) = map_of (fst st1) (row_tag row)" .
    also have "\<dots> = Some (stored_entry fl row)"
      using calc_row_stored(1) [OF s1] by (simp add: update_conv')
    finally show ?thesis using 0 by simp
  next
    case (Suc k)
    have "\<forall>j. k < j \<and> j < length rest \<longrightarrow> row_tag (rest ! j) \<noteq> row_tag (rest ! k)"
    proof (intro allI impI)
      fix j assume "k < j \<and> j < length rest"
      with Cons.prems(3) [rule_format, of "Suc j"] Suc
      show "row_tag (rest ! j) \<noteq> row_tag (rest ! k)" by simp
    qed
    from Cons.IH [OF r _ this, of ] Cons.prems(2) Suc show ?thesis by simp
  qed
qed

lemma calc_rows_warnings:
  assumes "calc_rows fl rows st = Inr st'"
  shows "snd st' = snd st @
           map (\<lambda>row. padding_warning (row_tag row))
             (filter (padded fl) rows)"
  using assms
proof (induction rows arbitrary: st)
  case Nil
  then show ?case by simp
next
  case (Cons row rest)
  from Cons.prems(1) obtain st1 where
    s1: "calc_row fl row st = Inr st1" and r: "calc_rows fl rest st1 = Inr st'"
    by (auto split: sum.splits)
  show ?case
    using Cons.IH [OF r] calc_row_stored(2) [OF s1] by simp
qed

lemma padding_warning_inj: "padding_warning t = padding_warning t' \<longleftrightarrow> t = t'"
  by (simp add: padding_warning_def)

lemma get_calc_data_returns:
  assumes "\<forall>row \<in> set rows. calc_row_ok fl row"
  shows "\<exists>d w. get_calc_data fl (headers # rows) = Inr (d, w)"
  using calc_rows_total [OF assms, of "([], [])"] by (auto simp: get_calc_data_def)

lemma get_calc_data_lookup:
  assumes "get_calc_data fl (headers # rows) = Inr (d, w)"
    and "i < length rows"
    and "\<forall>j. i < j \<and> j < length rows \<longrightarrow> row_tag (rows ! j) \<noteq> row_tag (rows ! i)"
  shows "map_of d (row_tag (rows ! i)) = Some (stored_entry fl (rows ! i))"
  using calc_rows_lookup [of fl rows "([], [])" "(d, w)" i] assms
  by (simp add: get_calc_data_def)

lemma get_calc_data_warnings:
  assumes "get_calc_data fl (headers # rows) = Inr (d, w)"
  shows "w = map (\<lambda>row. padding_warning (row_tag row)) (filter (padded fl) rows)"
  using calc_rows_warnings [of fl rows "([], [])" "(d, w)"] assms
  by (simp add: get_calc_data_def)

lemma calc_rows_append:
  "calc_rows fl (xs @ ys) st =
     (case calc_rows fl xs st of Inl e \<Rightarrow> Inl e | Inr st' \<Rightarrow> calc_rows fl ys st')"
  by (induction xs arbitrary: st) (simp_all split: sum.splits)

lemma get_calc_data_row_step:
  assumes ok: "\<forall>row \<in> set rows. calc_row_ok fl row"
    and i: "i < length rows"
  shows "\<exists>d0 w0.
           get_calc_data fl (headers # take i rows) = Inr (d0, w0) \<and>
           get_calc_data fl (headers # take (Suc i) rows) =
             Inr (AList.update (row_tag (rows ! i)) (stored_entry fl (rows ! i)) d0,
                  if padded fl (rows ! i) then w0 @ [padding_warning (row_tag (rows ! i))]
                  else w0)"
proof -
  from ok have "\<forall>row \<in> set (take i rows). calc_row_ok fl row"
    by (auto dest: in_set_takeD)
  from calc_rows_total [OF this, of "([], [])"] obtain d0 w0 where
    before: "calc_rows fl (take i rows) ([], []) = Inr (d0, w0)" by auto
  from ok i have "calc_row_ok fl (rows ! i)" by simp
  note step = calc_row_ok_step [OF this, of "(d0, w0)"]
  have "take (Suc i) rows = take i rows @ [rows ! i]"
    using i by (rule take_Suc_conv_app_nth)
  then have "calc_rows fl (take (Suc i) rows) ([], []) =
      Inr (AList.update (row_tag (rows ! i)) (stored_entry fl (rows ! i)) d0,
           if padded fl (rows ! i) then w0 @ [padding_warning (row_tag (rows ! i))] else w0)"
    using before step by (simp add: calc_rows_append)
  with before show ?thesis by (simp add: get_calc_data_def)
qed

lemma get_calc_data_warnings_prefix:
  assumes whole: "get_calc_data fl (headers # rows) = Inr (d, w)"
    and part: "get_calc_data fl (headers # take n rows) = Inr (d1, w1)"
  shows "prefix w1 w"
proof -
  have "rows = take n rows @ drop n rows" by simp
  then have "filter (padded fl) rows =
      filter (padded fl) (take n rows) @ filter (padded fl) (drop n rows)"
    by (metis filter_append)
  then show ?thesis
    unfolding get_calc_data_warnings [OF whole] get_calc_data_warnings [OF part]
    by (simp add: prefix_def)
qed

lemma get_calc_data_row_kept:
  assumes ok: "\<forall>row \<in> set rows. calc_row_ok fl row"
    and i: "i < length rows"
  shows "\<exists>d0 w0 d1 w1 d w.
           get_calc_data fl (headers # take i rows) = Inr (d0, w0) \<and>
           get_calc_data fl (headers # take (Suc i) rows) = Inr (d1, w1) \<and>
           get_calc_data fl (headers # rows) = Inr (d, w) \<and>
           prefix w1 w \<and>
           ((\<forall>j. i < j \<and> j < length rows \<longrightarrow> row_tag (rows ! j) \<noteq> row_tag (rows ! i)) \<longrightarrow>
              map_of d (row_tag (rows ! i)) = map_of d1 (row_tag (rows ! i))) \<and>
           map_of d1 (row_tag (rows ! i)) = Some (stored_entry fl (rows ! i)) \<and>
           w1 = (if padded fl (rows ! i) then w0 @ [padding_warning (row_tag (rows ! i))]
                 else w0)"
proof -
  from get_calc_data_row_step [OF ok i, of headers] obtain d0 w0 where
    before: "get_calc_data fl (headers # take i rows) = Inr (d0, w0)"
    and after: "get_calc_data fl (headers # take (Suc i) rows) =
      Inr (AList.update (row_tag (rows ! i)) (stored_entry fl (rows ! i)) d0,
           if padded fl (rows ! i) then w0 @ [padding_warning (row_tag (rows ! i))] else w0)"
    by blast
  from get_calc_data_returns [OF ok] obtain d w where
    whole: "get_calc_data fl (headers # rows) = Inr (d, w)" by blast
  note pre = get_calc_data_warnings_prefix [OF whole after]
  have stored: "map_of (AList.update (row_tag (rows ! i)) (stored_entry fl (rows ! i)) d0)
      (row_tag (rows ! i)) = Some (stored_entry fl (rows ! i))"
    by (simp add: update_conv')
  have kept: "map_of d (row_tag (rows ! i)) =
      map_of (AList.update (row_tag (rows ! i)) (stored_entry fl (rows ! i)) d0)
        (row_tag (rows ! i))"
    if "\<forall>j. i < j \<and> j < length rows \<longrightarrow> row_tag (rows ! j) \<noteq> row_tag (rows ! i)"
    using get_calc_data_lookup [OF whole i that] stored by simp
  from before after whole pre stored kept show ?thesis by blast
qed

text \<open>
  C1. Take a calculated-data file whose rows all have four fields with numbers in the last
  two, and any data row of it. Read up to that row, the reader has the dictionary \<open>d0\<close>
  and has given the warnings \<open>w0\<close>; read up to and including the row, it has \<open>d1\<close> and
  \<open>w1\<close>. If the standard error of the row parses to 0.003, \<open>d1\<close> stores 0.013 as the
  \<^verbatim>\<open>ddG_err\<close> under the tag of the row, and \<open>w1\<close> is \<open>w0\<close> followed by the padding warning
  of the row. If it parses to 0.02, or to any value that is at least 0.01, \<open>d1\<close> stores
  the parsed value and no warning has been added. The reader of the whole file returns,
  its warnings begin with \<open>w1\<close>, and its dictionary has under the tag of the row what
  \<open>d1\<close> has, unless a later row has the same tag.
\<close>

theorem get_calc_data_padding_examples:
  assumes ok: "\<forall>row \<in> set rows. calc_row_ok fl row"
    and i: "i < length rows"
  shows "\<exists>d0 w0 d1 w1 d w.
           get_calc_data fl (headers # take i rows) = Inr (d0, w0) \<and>
           get_calc_data fl (headers # take (Suc i) rows) = Inr (d1, w1) \<and>
           get_calc_data fl (headers # rows) = Inr (d, w) \<and>
           prefix w1 w \<and>
           ((\<forall>j. i < j \<and> j < length rows \<longrightarrow> row_tag (rows ! j) \<noteq> row_tag (rows ! i)) \<longrightarrow>
              map_of d (row_tag (rows ! i)) = map_of d1 (row_tag (rows ! i))) \<and>
           (fl (rows ! i ! 3) = Some 0.003 \<longrightarrow>
              map_option ddG_err (map_of d1 (row_tag (rows ! i))) = Some 0.013 \<and>
              w1 = w0 @ [padding_warning (row_tag (rows ! i))]) \<and>
           (fl (rows ! i ! 3) = Some 0.02 \<longrightarrow>
              map_option ddG_err (map_of d1 (row_tag (rows ! i))) = Some 0.02 \<and> w1 = w0) \<and>
           (\<forall>e. fl (rows ! i ! 3) = Some e \<and> 0.01 \<le> e \<longrightarrow>
              map_option ddG_err (map_of d1 (row_tag (rows ! i))) = Some e \<and> w1 = w0)"
proof -
  from get_calc_data_row_kept [OF ok i, of headers] obtain d0 w0 d1 w1 d w where
    reads: "get_calc_data fl (headers # take i rows) = Inr (d0, w0)"
      "get_calc_data fl (headers # take (Suc i) rows) = Inr (d1, w1)"
      "get_calc_data fl (headers # rows) = Inr (d, w)"
    and pre: "prefix w1 w"
    and kept: "(\<forall>j. i < j \<and> j < length rows \<longrightarrow> row_tag (rows ! j) \<noteq> row_tag (rows ! i)) \<longrightarrow>
      map_of d (row_tag (rows ! i)) = map_of d1 (row_tag (rows ! i))"
    and stored: "map_of d1 (row_tag (rows ! i)) = Some (stored_entry fl (rows ! i))"
    and warned: "w1 = (if padded fl (rows ! i)
      then w0 @ [padding_warning (row_tag (rows ! i))] else w0)"
    by blast
  have low: "fl (rows ! i ! 3) = Some 0.003 \<Longrightarrow>
      padded fl (rows ! i) \<and> ddG_err (stored_entry fl (rows ! i)) = 0.013"
    by (simp add: padded_def stored_entry_def)
  have high: "\<not> padded fl (rows ! i) \<and> ddG_err (stored_entry fl (rows ! i)) = e"
    if "fl (rows ! i ! 3) = Some e" and "0.01 \<le> e" for e
    using that by (simp add: padded_def stored_entry_def)
  have c1: "fl (rows ! i ! 3) = Some 0.003 \<longrightarrow>
      map_option ddG_err (map_of d1 (row_tag (rows ! i))) = Some 0.013 \<and>
      w1 = w0 @ [padding_warning (row_tag (rows ! i))]"
    using stored warned low by simp
  have c3: "\<forall>e. fl (rows ! i ! 3) = Some e \<and> 0.01 \<le> e \<longrightarrow>
      map_option ddG_err (map_of d1 (row_tag (rows ! i))) = Some e \<and> w1 = w0"
    using stored warned high by simp
  have c2: "fl (rows ! i ! 3) = Some 0.02 \<longrightarrow>
      map_option ddG_err (map_of d1 (row_tag (rows ! i))) = Some 0.02 \<and> w1 = w0"
    using stored warned high [of "0.02"] by simp
  from reads pre kept c1 c2 c3 show ?thesis by blast
qed

theorem get_calc_data_padding_examples_witness:
  "\<exists>d1 w1 d w.
     get_calc_data sample_float
       [[''ligand_i'', ''ligand_j'', ''DDG'', ''uncertainty''],
        [''ligA'', ''ligB'', ''1.0'', ''0.003'']] = Inr (d1, w1) \<and>
     map_option ddG_err (map_of d1 ''ligA->ligB'') = Some 0.013 \<and>
     w1 = [padding_warning ''ligA->ligB''] \<and>
     get_calc_data sample_float
       [[''ligand_i'', ''ligand_j'', ''DDG'', ''uncertainty''],
        [''ligA'', ''ligB'', ''1.0'', ''0.003''],
        [''ligB'', ''ligC'', ''0.5'', ''0.02'']] = Inr (d, w) \<and>
     map_option ddG_err (map_of d ''ligB->ligC'') = Some 0.02 \<and>
     w = w1"
proof -
  let ?r0 = "[''ligA'', ''ligB'', ''1.0'', ''0.003'']"
  let ?r1 = "[''ligB'', ''ligC'', ''0.5'', ''0.02'']"
  let ?hd = "[''ligand_i'', ''ligand_j'', ''DDG'', ''uncertainty'']"
  have ok: "\<forall>row \<in> set [?r0, ?r1]. calc_row_ok sample_float row"
    by (simp add: calc_row_ok_def sample_float_simps)
  have empty: "get_calc_data sample_float [?hd] = Inr ([], [])"
    by (simp add: get_calc_data_def)
  from get_calc_data_padding_examples [OF ok, of 0 ?hd] obtain d0 w0 d1 w1 where
    a0: "get_calc_data sample_float [?hd] = Inr (d0, w0)"
    and a1: "get_calc_data sample_float [?hd, ?r0] = Inr (d1, w1)"
    and a2: "map_option ddG_err (map_of d1 ''ligA->ligB'') = Some 0.013 \<and>
             w1 = w0 @ [padding_warning ''ligA->ligB'']"
    by (auto simp: sample_float_simps row_tag_def calc_tag_def)
  from a0 empty have w0: "w0 = []" by simp
  from get_calc_data_padding_examples [OF ok, of 1 ?hd] obtain d0' w0' d w where
    b0: "get_calc_data sample_float [?hd, ?r0] = Inr (d0', w0')"
    and b1: "get_calc_data sample_float [?hd, ?r0, ?r1] = Inr (d, w)"
    and b2: "map_option ddG_err (map_of d ''ligB->ligC'') = Some 0.02 \<and> w = w0'"
    by (auto simp: sample_float_simps row_tag_def calc_tag_def)
  from a1 b0 have "w0' = w1" by simp
  with a1 a2 w0 b1 b2 show ?thesis by auto
qed

text \<open>
  C2, as the specification states it, fails: the row \<^verbatim>\<open>ligA ligB 1.0 0.003\<close> has a
  standard error below 0.01, and the reader stores 0.013 for it, not 0.01.
\<close>

theorem get_calc_data_floor_counterexample:
  "sample_float ''0.003'' = Some 0.003 \<and> (0.003 :: real) < 0.01 \<and>
   get_calc_data sample_float
     [[''ligand_i'', ''ligand_j'', ''DDG'', ''uncertainty''],
      [''ligA'', ''ligB'', ''1.0'', ''0.003'']] =
     Inr ([(''ligA->ligB'',
            \<lparr>ligand_i = ''ligA'', ligand_j = ''ligB'', ddG = 1, ddG_err = 0.013\<rparr>)],
          [padding_warning ''ligA->ligB'']) \<and>
   (0.013 :: real) \<noteq> 0.01"
  by (simp add: get_calc_data_def calc_row_def bind_err_def py_index_def py_float_def
      sample_float_simps calc_tag_def Let_def)

text \<open>
  C2, amended. Take a calculated-data file whose rows all have four fields with numbers in
  the last two, and any data row of it whose standard error \<open>e\<close> is below 0.01. Read up
  to and including the row, the reader stores \<open>e + 0.01\<close> as the \<^verbatim>\<open>ddG_err\<close> under the tag
  of the row and has added the padding warning of the row to the warnings given before.
  No error is raised: the reader of the whole file returns, its warnings begin with those,
  and its dictionary has under the tag of the row the same entry, unless a later row has
  the same tag.
\<close>

theorem get_calc_data_pads_low_error:
  assumes ok: "\<forall>row \<in> set rows. calc_row_ok fl row"
    and i: "i < length rows"
    and e: "fl (rows ! i ! 3) = Some e"
    and low: "e < 0.01"
  shows "\<exists>d0 w0 d1 w1 d w.
           get_calc_data fl (headers # take i rows) = Inr (d0, w0) \<and>
           get_calc_data fl (headers # take (Suc i) rows) = Inr (d1, w1) \<and>
           get_calc_data fl (headers # rows) = Inr (d, w) \<and>
           prefix w1 w \<and>
           ((\<forall>j. i < j \<and> j < length rows \<longrightarrow> row_tag (rows ! j) \<noteq> row_tag (rows ! i)) \<longrightarrow>
              map_of d (row_tag (rows ! i)) = map_of d1 (row_tag (rows ! i))) \<and>
           map_option ddG_err (map_of d1 (row_tag (rows ! i))) = Some (e + 0.01) \<and>
           w1 = w0 @ [padding_warning (row_tag (rows ! i))]"
proof -
  from get_calc_data_row_kept [OF ok i, of headers] obtain d0 w0 d1 w1 d w where
    reads: "get_calc_data fl (headers # take i rows) = Inr (d0, w0)"
      "get_calc_data fl (headers # take (Suc i) rows) = Inr (d1, w1)"
      "get_calc_data fl (headers # rows) = Inr (d, w)"
    and pre: "prefix w1 w"
    and kept: "(\<forall>j. i < j \<and> j < length rows \<longrightarrow> row_tag (rows ! j) \<noteq> row_tag (rows ! i)) \<longrightarrow>
      map_of d (row_tag (rows ! i)) = map_of d1 (row_tag (rows ! i))"
    and stored: "map_of d1 (row_tag (rows ! i)) = Some (stored_entry fl (rows ! i))"
    and warned: "w1 = (if padded fl (rows ! i)
      then w0 @ [padding_warning (row_tag (rows ! i))] else w0)"
    by blast
  have p: "padded fl (rows ! i)"
    using e low by (simp add: padded_def)
  have v: "ddG_err (stored_entry fl (rows ! i)) = e + 0.01"
    using p e by (simp add: stored_entry_def)
  have c: "map_option ddG_err (map_of d1 (row_tag (rows ! i))) = Some (e + 0.01) \<and>
      w1 = w0 @ [padding_warning (row_tag (rows ! i))]"
    using stored warned p v by simp
  from reads pre kept c show ?thesis by blast
qed

theorem get_calc_data_pads_low_error_witness:
  "\<exists>d1 w1 d w.
     get_calc_data sample_float
       [[''ligand_i'', ''ligand_j'', ''DDG'', ''uncertainty''],
        [''ligA'', ''ligB'', ''1.0'', ''0.003'']] = Inr (d1, w1) \<and>
     map_option ddG_err (map_of d1 ''ligA->ligB'') = Some (0.003 + 0.01) \<and>
     w1 = [padding_warning ''ligA->ligB''] \<and>
     get_calc_data sample_float
       [[''ligand_i'', ''ligand_j'', ''DDG'', ''uncertainty''],
        [''ligA'', ''ligB'', ''1.0'', ''0.003''],
        [''ligB'', ''ligC'', ''0.5'', ''0.02'']] = Inr (d, w) \<and>
     map_of d ''ligA->ligB'' = map_of d1 ''ligA->ligB'' \<and>
     prefix w1 w"
proof -
  let ?r0 = "[''ligA'', ''ligB'', ''1.0'', ''0.003'']"
  let ?r1 = "[''ligB'', ''ligC'', ''0.5'', ''0.02'']"
  let ?hd = "[''ligand_i'', ''ligand_j'', ''DDG'', ''uncertainty'']"
  have ok: "\<forall>row \<in> set [?r0, ?r1]. calc_row_ok sample_float row"
    by (simp add: calc_row_ok_def sample_float_simps)
  have i: "0 < length [?r0, ?r1]" by simp
  have e: "sample_float ([?r0, ?r1] ! 0 ! 3) = Some 0.003"
    by (simp add: sample_float_simps)
  have low: "(0.003 :: real) < 0.01" by simp
  have later: "\<forall>j. 0 < j \<and> j < length [?r0, ?r1] \<longrightarrow>
      row_tag ([?r0, ?r1] ! j) \<noteq> row_tag ([?r0, ?r1] ! 0)"
    by (auto simp: row_tag_def calc_tag_def less_Suc_eq)
  have empty: "get_calc_data sample_float [?hd] = Inr ([], [])"
    by (simp add: get_calc_data_def)
  from get_calc_data_pads_low_error [OF ok i e low, of ?hd] obtain d0 w0 d1 w1 d w where
    a0: "get_calc_data sample_float (?hd # take 0 [?r0, ?r1]) = Inr (d0, w0)"
    and a1: "get_calc_data sample_float (?hd # take (Suc 0) [?r0, ?r1]) = Inr (d1, w1)"
    and a2: "get_calc_data sample_float (?hd # [?r0, ?r1]) = Inr (d, w)"
    and pre: "prefix w1 w"
    and kept: "(\<forall>j. 0 < j \<and> j < length [?r0, ?r1] \<longrightarrow>
        row_tag ([?r0, ?r1] ! j) \<noteq> row_tag ([?r0, ?r1] ! 0)) \<longrightarrow>
      map_of d (row_tag ([?r0, ?r1] ! 0)) = map_of d1 (row_tag ([?r0, ?r1] ! 0))"
    and c: "map_option ddG_err (map_of d1 (row_tag ([?r0, ?r1] ! 0))) = Some (0.003 + 0.01)"
      "w1 = w0 @ [padding_warning (row_tag ([?r0, ?r1] ! 0))]"
    by blast
  from a0 empty have w0: "w0 = []" by simp
  from kept later
  have k: "map_of d (row_tag ([?r0, ?r1] ! 0)) = map_of d1 (row_tag ([?r0, ?r1] ! 0))"
    by (rule mp)
  have t: "row_tag ([?r0, ?r1] ! 0) = ''ligA->ligB''"
    by (simp add: row_tag_def calc_tag_def)
  from a1 have a1': "get_calc_data sample_float [?hd, ?r0] = Inr (d1, w1)" by simp
  from a1' a2 pre k c w0 show ?thesis
    unfolding t by auto
qed

section \<open>Properties of the experimental-data reader\<close>

lemma index_of_None_iff: "index_of xs x = None \<longleftrightarrow> x \<notin> set xs"
  by (induction xs) auto

lemma index_of_Some:
  assumes "index_of xs x = Some i"
  shows "i < length xs \<and> xs ! i = x"
  using assms by (induction xs arbitrary: i) (auto split: if_splits)

lemma list_index_absent:
  assumes "x \<notin> set xs"
  shows "list_index xs x = Inl (ValueError (NotInList x))"
  using assms by (simp add: list_index_def index_of_None_iff [THEN iffD2])

lemma list_index_present:
  assumes "x \<in> set xs"
  shows "list_index xs x = Inr (column xs x)"
proof -
  from assms obtain i where "index_of xs x = Some i"
    using index_of_None_iff [of xs x] by (cases "index_of xs x") auto
  then show ?thesis by (simp add: list_index_def column_def)
qed

lemma list_index_cases:
  "list_index xs x = (if x \<in> set xs then Inr (column xs x) else Inl (ValueError (NotInList x)))"
  by (simp add: list_index_absent list_index_present)

lemma exp_header_missing:
  assumes "col \<in> set required_columns" and "col \<notin> set headers"
  shows "\<exists>c'. c' \<in> set required_columns \<and> c' \<notin> set headers \<and>
           exp_header headers = Inl (ValueError (NotInList c'))"
  using assms
  by (auto simp: required_columns_def exp_header_def bind_err_def list_index_cases)

lemma exp_header_present:
  assumes "set required_columns \<subseteq> set headers"
  shows "exp_header headers = Inr (exp_cols headers)"
  using assms
  by (simp add: required_columns_def exp_header_def bind_err_def list_index_cases exp_cols_def)

lemma exp_header_Inr:
  assumes "exp_header headers = Inr c"
  shows "set required_columns \<subseteq> set headers"
proof (rule ccontr)
  assume "\<not> set required_columns \<subseteq> set headers"
  then obtain col where "col \<in> set required_columns" "col \<notin> set headers" by blast
  from exp_header_missing [OF this] assms show False by auto
qed

lemma float_field_cases:
  "float_field fl row i =
     (if i < length row
      then (case fl (row ! i) of
              None \<Rightarrow> Inl (ValueError (FloatSyntax (row ! i)))
            | Some x \<Rightarrow> Inr x)
      else Inl IndexError)"
  by (simp add: float_field_def bind_err_def py_index_def py_float_def)

lemma exp_row_step:
  assumes req: "set required_columns \<subseteq> set headers"
    and ok: "exp_row_ok fl headers row"
  shows "exp_row fl (exp_cols headers) row d =
           Inr (AList.update (exp_name headers row) (exp_entry_of fl headers row) d)"
  using assms
  by (auto simp: exp_row_ok_def numeric_ok_def numeric_columns_def required_columns_def
      exp_row_def exp_cols_def exp_name_def exp_entry_of_def bind_err_def py_index_def
      float_field_cases Option.is_none_def)

lemma exp_row_Inr:
  assumes req: "set required_columns \<subseteq> set headers"
    and ret: "exp_row fl (exp_cols headers) row d = Inr d'"
  shows "exp_row_ok fl headers row"
  using assms
  by (auto simp: exp_row_ok_def numeric_ok_def numeric_columns_def required_columns_def
      exp_row_def exp_cols_def bind_err_def py_index_def float_field_cases Option.is_none_def
      split: if_splits option.splits)

lemma exp_rows_total:
  assumes req: "set required_columns \<subseteq> set headers"
    and ok: "\<forall>row \<in> set rows. exp_row_ok fl headers row"
  shows "\<exists>d'. exp_rows fl (exp_cols headers) rows d = Inr d'"
  using ok
proof (induction rows arbitrary: d)
  case Nil
  show ?case by simp
next
  case (Cons row rest)
  then have "exp_row_ok fl headers row" by simp
  from exp_row_step [OF req this] Cons show ?case by simp
qed

lemma exp_rows_Inr_ok:
  assumes req: "set required_columns \<subseteq> set headers"
    and ret: "exp_rows fl (exp_cols headers) rows d = Inr d'"
  shows "\<forall>row \<in> set rows. exp_row_ok fl headers row"
  using ret
proof (induction rows arbitrary: d)
  case Nil
  show ?case by simp
next
  case (Cons row rest)
  then show ?case
    by (auto split: sum.splits dest: exp_row_Inr [OF req])
qed

lemma get_exp_data_Inr:
  assumes "get_exp_data fl (headers # rows) = Inr d"
  shows "set required_columns \<subseteq> set headers"
    and "exp_rows fl (exp_cols headers) rows [] = Inr d"
    and "\<forall>row \<in> set rows. exp_row_ok fl headers row"
proof -
  from assms obtain c where c: "exp_header headers = Inr c"
    by (cases "exp_header headers") (auto simp: get_exp_data_def bind_err_def)
  from exp_header_Inr [OF c] show req: "set required_columns \<subseteq> set headers" .
  from c exp_header_present [OF req] have "c = exp_cols headers" by simp
  with assms c show rows: "exp_rows fl (exp_cols headers) rows [] = Inr d"
    by (simp add: get_exp_data_def bind_err_def)
  from exp_rows_Inr_ok [OF req rows] show "\<forall>row \<in> set rows. exp_row_ok fl headers row" .
qed

lemma get_exp_data_returns:
  assumes req: "set required_columns \<subseteq> set headers"
    and ok: "\<forall>row \<in> set rows. exp_row_ok fl headers row"
  shows "\<exists>d. get_exp_data fl (headers # rows) = Inr d"
  using exp_rows_total [OF req ok, of "[]"] exp_header_present [OF req]
  by (simp add: get_exp_data_def bind_err_def)

subsection \<open>A loop of dictionary assignments\<close>

lemma update_fresh:
  assumes "k \<notin> fst ` set d"
  shows "AList.update k v d = d @ [(k, v)]"
  using assms by (induction d) auto

lemma fold_update_keys:
  "fst ` set (fold (\<lambda>r. AList.update (kf r) (vf r)) rs d) = fst ` set d \<union> kf ` set rs"
  by (induction rs arbitrary: d) (auto simp: dom_update)

lemma fold_update_distinct:
  assumes "distinct (map kf rs)" and "\<forall>r \<in> set rs. kf r \<notin> fst ` set d"
  shows "fold (\<lambda>r. AList.update (kf r) (vf r)) rs d = d @ map (\<lambda>r. (kf r, vf r)) rs"
  using assms
proof (induction rs arbitrary: d)
  case Nil
  show ?case by simp
next
  case (Cons r rs)
  have fresh: "AList.update (kf r) (vf r) d = d @ [(kf r, vf r)]"
    using Cons.prems(2) by (simp add: update_fresh)
  have "\<forall>x \<in> set rs. kf x \<notin> fst ` set (d @ [(kf r, vf r)])"
    using Cons.prems by (auto simp: image_iff)
  with Cons.IH [of "d @ [(kf r, vf r)]"] Cons.prems(1) fresh show ?case by simp
qed

lemma fold_update_other:
  assumes "\<forall>r \<in> set rs. kf r \<noteq> k"
  shows "map_of (fold (\<lambda>r. AList.update (kf r) (vf r)) rs d) k = map_of d k"
  using assms by (induction rs arbitrary: d) (auto simp: update_conv')

lemma fold_update_last:
  assumes "i < length rs"
    and "\<forall>j. i < j \<and> j < length rs \<longrightarrow> kf (rs ! j) \<noteq> kf (rs ! i)"
  shows "map_of (fold (\<lambda>r. AList.update (kf r) (vf r)) rs d) (kf (rs ! i)) = Some (vf (rs ! i))"
  using assms
proof (induction rs arbitrary: d i)
  case Nil
  then show ?case by simp
next
  case (Cons r rs)
  show ?case
  proof (cases i)
    case 0
    have "\<forall>x \<in> set rs. kf x \<noteq> kf r"
    proof
      fix x assume "x \<in> set rs"
      then obtain k where "k < length rs" "rs ! k = x"
        by (auto simp: in_set_conv_nth)
      with Cons.prems(2) [rule_format, of "Suc k"] 0 show "kf x \<noteq> kf r" by simp
    qed
    from fold_update_other [of rs kf "kf r" vf, OF this] 0 show ?thesis
      by (simp add: update_conv')
  next
    case (Suc k)
    have "\<forall>j. k < j \<and> j < length rs \<longrightarrow> kf (rs ! j) \<noteq> kf (rs ! k)"
    proof (intro allI impI)
      fix j assume "k < j \<and> j < length rs"
      with Cons.prems(2) [rule_format, of "Suc j"] Suc
      show "kf (rs ! j) \<noteq> kf (rs ! k)" by simp
    qed
    from Cons.IH [OF _ this] Cons.prems(1) Suc show ?thesis by simp
  qed
qed

lemma exp_rows_fold:
  assumes req: "set required_columns \<subseteq> set headers"
    and ret: "exp_rows fl (exp_cols headers) rows d0 = Inr d"
  shows "d = fold (\<lambda>row. AList.update (exp_name headers row) (exp_entry_of fl headers row))
               rows d0"
  using ret
proof (induction rows arbitrary: d0)
  case Nil
  then show ?case by simp
next
  case (Cons row rest)
  from Cons.prems obtain d1 where
    s1: "exp_row fl (exp_cols headers) row d0 = Inr d1"
    and r: "exp_rows fl (exp_cols headers) rest d1 = Inr d"
    by (auto split: sum.splits)
  from exp_row_step [OF req exp_row_Inr [OF req s1], of d0] s1
  have "d1 = AList.update (exp_name headers row) (exp_entry_of fl headers row) d0" by simp
  with Cons.IH [OF r] show ?case by simp
qed

lemma calc_rows_fold:
  assumes "calc_rows fl rows st = Inr st'"
  shows "fst st' = fold (\<lambda>row. AList.update (row_tag row) (stored_entry fl row)) rows (fst st)"
  using assms
proof (induction rows arbitrary: st)
  case Nil
  then show ?case by simp
next
  case (Cons row rest)
  from Cons.prems obtain st1 where
    s1: "calc_row fl row st = Inr st1" and r: "calc_rows fl rest st1 = Inr st'"
    by (auto split: sum.splits)
  from Cons.IH [OF r] calc_row_stored(1) [OF s1] show ?case by simp
qed

lemma exp_row_error:
  assumes "exp_row fl c row d = Inl e"
  shows "e = IndexError \<or> (\<exists>s. e = ValueError (FloatSyntax s) \<and> fl s = None)"
  using assms
  by (auto simp: exp_row_def bind_err_def py_index_def float_field_cases
      split: if_splits option.splits sum.splits)

lemma exp_rows_error:
  assumes "exp_rows fl c rows d = Inl e"
  shows "e = IndexError \<or> (\<exists>s. e = ValueError (FloatSyntax s) \<and> fl s = None)"
  using assms
proof (induction rows arbitrary: d)
  case Nil
  then show ?case by simp
next
  case (Cons row rest)
  then show ?case
    by (auto split: sum.splits dest: exp_row_error)
qed

lemma get_exp_data_missing_column:
  assumes "col \<in> set required_columns" and "col \<notin> set headers"
  shows "\<exists>c'. c' \<in> set required_columns \<and> c' \<notin> set headers \<and>
           get_exp_data fl (headers # rows) = Inl (ValueError (NotInList c'))"
  using exp_header_missing [OF assms] by (auto simp: get_exp_data_def bind_err_def)

lemma get_exp_data_malformed:
  assumes col: "col \<in> set numeric_columns" "col \<in> set headers"
    and row: "row \<in> set rows"
    and bad: "fl (row ! column headers col) = None"
  shows "\<exists>e. get_exp_data fl (headers # rows) = Inl e"
proof (cases "get_exp_data fl (headers # rows)")
  case (Inl e)
  then show ?thesis by blast
next
  case (Inr d)
  from get_exp_data_Inr(3) [OF Inr] row have "exp_row_ok fl headers row" by blast
  with col have "numeric_ok fl headers row col"
    by (auto simp: exp_row_ok_def numeric_columns_def)
  with bad show ?thesis by (simp add: numeric_ok_def)
qed

lemma get_exp_data_error_kind:
  assumes "get_exp_data fl (headers # rows) = Inl e"
  shows "(\<exists>c. e = ValueError (NotInList c) \<and> c \<in> set required_columns \<and> c \<notin> set headers) \<or>
         e = IndexError \<or> (\<exists>s. e = ValueError (FloatSyntax s) \<and> fl s = None)"
proof (cases "set required_columns \<subseteq> set headers")
  case True
  from assms exp_header_present [OF True]
  have "exp_rows fl (exp_cols headers) rows [] = Inl e"
    by (simp add: get_exp_data_def bind_err_def)
  from exp_rows_error [OF this] show ?thesis by blast
next
  case False
  then obtain col where "col \<in> set required_columns" "col \<notin> set headers" by blast
  from get_exp_data_missing_column [OF this, of fl rows] assms show ?thesis by auto
qed

lemma get_exp_data_keys:
  assumes "get_exp_data fl (headers # rows) = Inr d"
  shows "fst ` set d = exp_name headers ` set rows"
  using exp_rows_fold [OF get_exp_data_Inr(1,2) [OF assms]]
  by (simp add: fold_update_keys)

text \<open>
  C6. If the header row of an experimental file lacks a required column (such as
  \<^verbatim>\<open>Pred. dG (kcal/mol)\<close>), the reader raises the \<^verbatim>\<open>ValueError\<close> of \<^verbatim>\<open>list.index\<close>
  for a required column that is missing, whatever the data rows are. If some row has a field
  in a numeric column that \<^verbatim>\<open>float\<close> rejects, the reader raises as well (the error
  of the first thing that fails: a missing column, a short row or a malformed number). The reader
  returns a mapping only when every required column is there and every row has all its
  fields, and that mapping has a key for every row: a partial mapping is never returned.
\<close>

theorem get_exp_data_fails_fast:
  "(col \<in> set required_columns \<and> col \<notin> set headers \<longrightarrow>
      (\<exists>c'. c' \<in> set required_columns \<and> c' \<notin> set headers \<and>
         get_exp_data fl (headers # rows) = Inl (ValueError (NotInList c')))) \<and>
   (ncol \<in> set numeric_columns \<and> ncol \<in> set headers \<and> row \<in> set rows \<and>
      column headers ncol < length row \<and> fl (row ! column headers ncol) = None \<longrightarrow>
      (\<exists>e. get_exp_data fl (headers # rows) = Inl e \<and>
         ((\<exists>c. e = ValueError (NotInList c)) \<or> e = IndexError \<or>
          (\<exists>s. e = ValueError (FloatSyntax s) \<and> fl s = None)))) \<and>
   (get_exp_data fl (headers # rows) = Inr d \<longrightarrow>
      set required_columns \<subseteq> set headers \<and>
      (\<forall>r \<in> set rows. exp_row_ok fl headers r) \<and>
      fst ` set d = exp_name headers ` set rows)"
proof (intro conjI impI)
  assume "col \<in> set required_columns \<and> col \<notin> set headers"
  then show "\<exists>c'. c' \<in> set required_columns \<and> c' \<notin> set headers \<and>
      get_exp_data fl (headers # rows) = Inl (ValueError (NotInList c'))"
    using get_exp_data_missing_column by blast
next
  assume a: "ncol \<in> set numeric_columns \<and> ncol \<in> set headers \<and> row \<in> set rows \<and>
      column headers ncol < length row \<and> fl (row ! column headers ncol) = None"
  then obtain e where e: "get_exp_data fl (headers # rows) = Inl e"
    using get_exp_data_malformed [of ncol headers row rows fl] by blast
  from get_exp_data_error_kind [OF e] e
  show "\<exists>e. get_exp_data fl (headers # rows) = Inl e \<and>
         ((\<exists>c. e = ValueError (NotInList c)) \<or> e = IndexError \<or>
          (\<exists>s. e = ValueError (FloatSyntax s) \<and> fl s = None))"
    by blast
next
  assume r: "get_exp_data fl (headers # rows) = Inr d"
  from get_exp_data_Inr(1) [OF r] show "set required_columns \<subseteq> set headers" .
  from get_exp_data_Inr(3) [OF r] show "\<forall>r \<in> set rows. exp_row_ok fl headers r" .
  from get_exp_data_keys [OF r] show "fst ` set d = exp_name headers ` set rows" .
qed

theorem get_exp_data_fails_fast_witness:
  "get_exp_data sample_float
     [[''Ligand name'', ''Exp. dG (kcal/mol)'', ''Pred. dG std. error (kcal/mol)''],
      [''lig1'', ''-10.0'', ''0.02'']] =
     Inl (ValueError (NotInList ''Pred. dG (kcal/mol)'')) \<and>
   (\<exists>e. get_exp_data sample_float
      [[''Ligand name'', ''Exp. dG (kcal/mol)'', ''Pred. dG (kcal/mol)'',
        ''Pred. dG std. error (kcal/mol)''],
       [''lig1'', ''-10.0'', ''n/a'', ''0.02'']] = Inl e) \<and>
   (\<exists>d. get_exp_data sample_float
      [[''Ligand name'', ''Exp. dG (kcal/mol)'', ''Pred. dG (kcal/mol)'',
        ''Pred. dG std. error (kcal/mol)''],
       [''lig1'', ''-10.0'', ''-9.5'', ''0.02'']] = Inr d \<and> fst ` set d = {''lig1''})"
proof (intro conjI)
  let ?short = "[''Ligand name'', ''Exp. dG (kcal/mol)'', ''Pred. dG std. error (kcal/mol)'']"
  let ?full = "[''Ligand name'', ''Exp. dG (kcal/mol)'', ''Pred. dG (kcal/mol)'',
                ''Pred. dG std. error (kcal/mol)'']"
  let ?bad = "[''lig1'', ''-10.0'', ''n/a'', ''0.02'']"
  let ?good = "[''lig1'', ''-10.0'', ''-9.5'', ''0.02'']"
  have missing: "''Pred. dG (kcal/mol)'' \<in> set required_columns \<and>
      ''Pred. dG (kcal/mol)'' \<notin> set ?short"
    by (simp add: required_columns_def)
  from get_exp_data_fails_fast
    [of "''Pred. dG (kcal/mol)''" ?short sample_float "[[''lig1'', ''-10.0'', ''0.02'']]"]
    missing
  obtain c' where "c' \<in> set required_columns" "c' \<notin> set ?short"
    "get_exp_data sample_float [?short, [''lig1'', ''-10.0'', ''0.02'']] =
       Inl (ValueError (NotInList c'))"
    by blast
  then show "get_exp_data sample_float [?short, [''lig1'', ''-10.0'', ''0.02'']] =
      Inl (ValueError (NotInList ''Pred. dG (kcal/mol)''))"
    by (auto simp: required_columns_def)
  have malformed: "''Pred. dG (kcal/mol)'' \<in> set numeric_columns \<and>
      ''Pred. dG (kcal/mol)'' \<in> set ?full \<and> ?bad \<in> set [?bad] \<and>
      column ?full ''Pred. dG (kcal/mol)'' < length ?bad \<and>
      sample_float (?bad ! column ?full ''Pred. dG (kcal/mol)'') = None"
    by (simp add: numeric_columns_def column_def sample_float_def)
  from get_exp_data_fails_fast
    [of _ ?full sample_float "[?bad]" "''Pred. dG (kcal/mol)''" ?bad] malformed
  show "\<exists>e. get_exp_data sample_float [?full, ?bad] = Inl e"
    by blast
  have req: "set required_columns \<subseteq> set ?full"
    by (simp add: required_columns_def)
  have ok: "\<forall>row \<in> set [?good]. exp_row_ok sample_float ?full row"
    by (simp add: exp_row_ok_def numeric_ok_def numeric_columns_def column_def
        sample_float_simps)
  from get_exp_data_returns [OF req ok] obtain d where
    d: "get_exp_data sample_float [?full, ?good] = Inr d" by blast
  from get_exp_data_fails_fast [of _ ?full sample_float "[?good]" _ _ d] d
  have "fst ` set d = exp_name ?full ` set [?good]" by blast
  then have "fst ` set d = {''lig1''}"
    by (simp add: exp_name_def column_def)
  with d show "\<exists>d. get_exp_data sample_float [?full, ?good] = Inr d \<and> fst ` set d = {''lig1''}"
    by blast
qed

section \<open>Rows that share a key\<close>

text \<open>
  C9, as the specification states it, fails: both readers assign to a dictionary key
  without looking whether the key is there already. Two rows for \<^verbatim>\<open>lig1\<close> in the
  experimental file, and two rows for the pair \<^verbatim>\<open>ligA\<close>, \<^verbatim>\<open>ligB\<close> in the calculated
  file, come back as one entry with the values of the second row, and no error is raised.
\<close>

theorem readers_duplicate_key_counterexample:
  "get_exp_data sample_float
     [[''Ligand name'', ''Exp. dG (kcal/mol)'', ''Pred. dG (kcal/mol)'',
       ''Pred. dG std. error (kcal/mol)''],
      [''lig1'', ''-10.0'', ''-9.5'', ''0.02''],
      [''lig1'', ''-8.0'', ''-9.5'', ''0.02'']] =
     Inr [(''lig1'', \<lparr>exp_dG = - 8, exp_dG_err = 0, fep_dG = - 9.5, fep_dG_err = 0.02\<rparr>)] \<and>
   get_calc_data sample_float
     [[''ligand_i'', ''ligand_j'', ''DDG'', ''uncertainty''],
      [''ligA'', ''ligB'', ''1.0'', ''0.02''],
      [''ligA'', ''ligB'', ''0.5'', ''0.02'']] =
     Inr ([(''ligA->ligB'',
            \<lparr>ligand_i = ''ligA'', ligand_j = ''ligB'', ddG = 0.5, ddG_err = 0.02\<rparr>)], [])"
  by (simp add: get_exp_data_def exp_header_def list_index_def exp_row_def float_field_def
      get_calc_data_def calc_row_def bind_err_def py_index_def py_float_def
      sample_float_simps calc_tag_def Let_def)

text \<open>
  C9, amended. When a reader returns a mapping, every key of the mapping holds the values
  of the last row with that key; when the keys of the rows are pairwise distinct (the
  ligand names of the experimental file, the tags \<^verbatim>\<open>ligand_i->ligand_j\<close> of the calculated
  file), the mapping has exactly one entry for every row, in the order of the rows, with
  the values of that row.
\<close>

theorem readers_keep_last_row:
  "(get_exp_data fl (headers # rows) = Inr d \<longrightarrow>
      (\<forall>i. i < length rows \<and>
           (\<forall>j. i < j \<and> j < length rows \<longrightarrow>
                exp_name headers (rows ! j) \<noteq> exp_name headers (rows ! i)) \<longrightarrow>
           map_of d (exp_name headers (rows ! i)) = Some (exp_entry_of fl headers (rows ! i))) \<and>
      (distinct (map (exp_name headers) rows) \<longrightarrow>
         d = map (\<lambda>row. (exp_name headers row, exp_entry_of fl headers row)) rows)) \<and>
   (get_calc_data fl (cheaders # crows) = Inr (cd, w) \<longrightarrow>
      (\<forall>i. i < length crows \<and>
           (\<forall>j. i < j \<and> j < length crows \<longrightarrow> row_tag (crows ! j) \<noteq> row_tag (crows ! i)) \<longrightarrow>
           map_of cd (row_tag (crows ! i)) = Some (stored_entry fl (crows ! i))) \<and>
      (distinct (map row_tag crows) \<longrightarrow>
         cd = map (\<lambda>row. (row_tag row, stored_entry fl row)) crows))"
proof (intro conjI impI allI)
  fix i
  assume r: "get_exp_data fl (headers # rows) = Inr d"
    and i: "i < length rows \<and>
      (\<forall>j. i < j \<and> j < length rows \<longrightarrow>
           exp_name headers (rows ! j) \<noteq> exp_name headers (rows ! i))"
  have d: "d = fold (\<lambda>row. AList.update (exp_name headers row) (exp_entry_of fl headers row))
                rows []"
    by (rule exp_rows_fold [OF get_exp_data_Inr(1,2) [OF r]])
  from i show "map_of d (exp_name headers (rows ! i)) = Some (exp_entry_of fl headers (rows ! i))"
    unfolding d by (intro fold_update_last) auto
next
  assume r: "get_exp_data fl (headers # rows) = Inr d"
    and dist: "distinct (map (exp_name headers) rows)"
  have d: "d = fold (\<lambda>row. AList.update (exp_name headers row) (exp_entry_of fl headers row))
                rows []"
    by (rule exp_rows_fold [OF get_exp_data_Inr(1,2) [OF r]])
  from fold_update_distinct [OF dist, of "[]" "exp_entry_of fl headers"]
  show "d = map (\<lambda>row. (exp_name headers row, exp_entry_of fl headers row)) rows"
    unfolding d by simp
next
  fix i
  assume r: "get_calc_data fl (cheaders # crows) = Inr (cd, w)"
    and i: "i < length crows \<and>
      (\<forall>j. i < j \<and> j < length crows \<longrightarrow> row_tag (crows ! j) \<noteq> row_tag (crows ! i))"
  then show "map_of cd (row_tag (crows ! i)) = Some (stored_entry fl (crows ! i))"
    using get_calc_data_lookup [OF r] by blast
next
  assume r: "get_calc_data fl (cheaders # crows) = Inr (cd, w)"
    and dist: "distinct (map row_tag crows)"
  from r have "calc_rows fl crows ([], []) = Inr (cd, w)"
    by (simp add: get_calc_data_def)
  from calc_rows_fold [OF this]
  have cd: "cd = fold (\<lambda>row. AList.update (row_tag row) (stored_entry fl row)) crows []"
    by simp
  from fold_update_distinct [OF dist, of "[]" "stored_entry fl"]
  show "cd = map (\<lambda>row. (row_tag row, stored_entry fl row)) crows"
    unfolding cd by simp
qed

theorem readers_keep_last_row_witness:
  "get_exp_data sample_float
     [[''Ligand name'', ''Exp. dG (kcal/mol)'', ''Pred. dG (kcal/mol)'',
       ''Pred. dG std. error (kcal/mol)''],
      [''lig1'', ''-10.0'', ''-9.5'', ''0.02''],
      [''lig2'', ''-8.0'', ''-9.5'', ''0.5'']] =
     Inr [(''lig1'', \<lparr>exp_dG = - 10, exp_dG_err = 0, fep_dG = - 9.5, fep_dG_err = 0.02\<rparr>),
          (''lig2'', \<lparr>exp_dG = - 8, exp_dG_err = 0, fep_dG = - 9.5, fep_dG_err = 0.5\<rparr>)] \<and>
   (\<exists>cd w. get_calc_data sample_float
      [[''ligand_i'', ''ligand_j'', ''DDG'', ''uncertainty''],
       [''ligA'', ''ligB'', ''1.0'', ''0.02''],
       [''ligA'', ''ligB'', ''0.5'', ''0.02''],
       [''ligB'', ''ligC'', ''0.5'', ''0.003'']] = Inr (cd, w) \<and>
      map_of cd ''ligA->ligB'' =
        Some \<lparr>ligand_i = ''ligA'', ligand_j = ''ligB'', ddG = 0.5, ddG_err = 0.02\<rparr>)"
proof (intro conjI)
  let ?h = "[''Ligand name'', ''Exp. dG (kcal/mol)'', ''Pred. dG (kcal/mol)'',
             ''Pred. dG std. error (kcal/mol)'']"
  let ?rows = "[[''lig1'', ''-10.0'', ''-9.5'', ''0.02''], [''lig2'', ''-8.0'', ''-9.5'', ''0.5'']]"
  have req: "set required_columns \<subseteq> set ?h"
    by (simp add: required_columns_def)
  have ok: "\<forall>row \<in> set ?rows. exp_row_ok sample_float ?h row"
    by (simp add: exp_row_ok_def numeric_ok_def numeric_columns_def column_def
        sample_float_simps)
  from get_exp_data_returns [OF req ok] obtain d where
    d: "get_exp_data sample_float (?h # ?rows) = Inr d" by blast
  have dist: "distinct (map (exp_name ?h) ?rows)"
    by (simp add: exp_name_def column_def)
  from readers_keep_last_row [of sample_float ?h ?rows d] d dist
  have "d = map (\<lambda>row. (exp_name ?h row, exp_entry_of sample_float ?h row)) ?rows"
    by blast
  then have "d = [(''lig1'', \<lparr>exp_dG = - 10, exp_dG_err = 0, fep_dG = - 9.5, fep_dG_err = 0.02\<rparr>),
                  (''lig2'', \<lparr>exp_dG = - 8, exp_dG_err = 0, fep_dG = - 9.5, fep_dG_err = 0.5\<rparr>)]"
    by (simp add: exp_name_def exp_entry_of_def column_def sample_float_simps)
  with d show "get_exp_data sample_float (?h # ?rows) =
      Inr [(''lig1'', \<lparr>exp_dG = - 10, exp_dG_err = 0, fep_dG = - 9.5, fep_dG_err = 0.02\<rparr>),
           (''lig2'', \<lparr>exp_dG = - 8, exp_dG_err = 0, fep_dG = - 9.5, fep_dG_err = 0.5\<rparr>)]"
    by simp
  let ?ch = "[''ligand_i'', ''ligand_j'', ''DDG'', ''uncertainty'']"
  let ?crows = "[[''ligA'', ''ligB'', ''1.0'', ''0.02''], [''ligA'', ''ligB'', ''0.5'', ''0.02''],
                 [''ligB'', ''ligC'', ''0.5'', ''0.003'']]"
  have cok: "\<forall>row \<in> set ?crows. calc_row_ok sample_float row"
    by (simp add: calc_row_ok_def sample_float_simps)
  from get_calc_data_returns [OF cok] obtain cd w where
    cd: "get_calc_data sample_float (?ch # ?crows) = Inr (cd, w)" by blast
  have last: "1 < length ?crows \<and>
      (\<forall>j. 1 < j \<and> j < length ?crows \<longrightarrow> row_tag (?crows ! j) \<noteq> row_tag (?crows ! 1))"
    by (auto simp: row_tag_def calc_tag_def less_Suc_eq)
  from readers_keep_last_row [of sample_float _ _ _ ?ch ?crows cd w] cd last
  have "map_of cd (row_tag (?crows ! 1)) = Some (stored_entry sample_float (?crows ! 1))"
    by blast
  then have "map_of cd ''ligA->ligB'' =
      Some \<lparr>ligand_i = ''ligA'', ligand_j = ''ligB'', ddG = 0.5, ddG_err = 0.02\<rparr>"
    by (simp add: row_tag_def calc_tag_def stored_entry_def padded_def sample_float_simps)
  with cd show "\<exists>cd w. get_calc_data sample_float (?ch # ?crows) = Inr (cd, w) \<and>
      map_of cd ''ligA->ligB'' =
        Some \<lparr>ligand_i = ''ligA'', ligand_j = ''ligB'', ddG = 0.5, ddG_err = 0.02\<rparr>"
    by blast
qed

section \<open>Properties of the third-party comparison\<close>

lemma openfe_step_absent:
  assumes "\<not> in_graph openfe_nodes entry"
  shows "openfe_step openfe_nodes entry p = Inr p"
proof -
  from assms have "filter (\<lambda>node. fst node = fst entry) openfe_nodes = []"
    by (force simp: in_graph_def filter_empty_conv)
  then show ?thesis by (simp add: openfe_step_def)
qed

lemma openfe_step_present:
  assumes "in_graph openfe_nodes entry" and "node_complete openfe_nodes entry"
  shows "openfe_step openfe_nodes entry p =
           Inr \<lparr>fep = fep p @ [fep_dG (snd entry)],
                fep_err = fep_err p @ [fep_dG_err (snd entry)],
                dg_openfe = dg_openfe p @ [node_value openfe_nodes ''calc_DG'' entry],
                openfe_err = openfe_err p @ [node_value openfe_nodes ''calc_dDG'' entry],
                exp = exp p @ [node_value openfe_nodes ''exp_DG'' entry]\<rparr>"
proof -
  from assms(1) obtain node others where
    f: "filter (\<lambda>node. fst node = fst entry) openfe_nodes = node # others"
    by (cases "filter (\<lambda>node. fst node = fst entry) openfe_nodes")
      (auto simp: in_graph_def filter_empty_conv)
  with assms(2) show ?thesis
    by (auto simp: openfe_step_def node_complete_def node_value_def node_field_def
        bind_err_def Option.is_none_def)
qed

lemma openfe_step_Inr:
  assumes "openfe_step openfe_nodes entry p = Inr q" and "in_graph openfe_nodes entry"
  shows "node_complete openfe_nodes entry"
proof -
  from assms(2) obtain node others where
    f: "filter (\<lambda>node. fst node = fst entry) openfe_nodes = node # others"
    by (cases "filter (\<lambda>node. fst node = fst entry) openfe_nodes")
      (auto simp: in_graph_def filter_empty_conv)
  with assms(1) show ?thesis
    by (auto simp: openfe_step_def node_complete_def node_field_def bind_err_def
        Option.is_none_def split: option.splits)
qed

lemma openfe_loop_skip:
  assumes "\<not> in_graph openfe_nodes entry"
  shows "openfe_loop openfe_nodes (pre @ entry # post) p = openfe_loop openfe_nodes (pre @ post) p"
proof (induction pre arbitrary: p)
  case Nil
  show ?case by (simp add: openfe_step_absent [OF assms])
next
  case (Cons x pre)
  show ?case by (cases "openfe_step openfe_nodes x p") (simp_all add: Cons.IH)
qed

lemma openfe_loop_Inr:
  assumes "openfe_loop openfe_nodes exp_data p = Inr q"
  shows "fep q = fep p @ map (\<lambda>e. fep_dG (snd e)) (matched openfe_nodes exp_data) \<and>
         fep_err q = fep_err p @ map (\<lambda>e. fep_dG_err (snd e)) (matched openfe_nodes exp_data) \<and>
         dg_openfe q = dg_openfe p @
           map (node_value openfe_nodes ''calc_DG'') (matched openfe_nodes exp_data) \<and>
         openfe_err q = openfe_err p @
           map (node_value openfe_nodes ''calc_dDG'') (matched openfe_nodes exp_data) \<and>
         exp q = exp p @ map (node_value openfe_nodes ''exp_DG'') (matched openfe_nodes exp_data) \<and>
         list_all (node_complete openfe_nodes) (matched openfe_nodes exp_data)"
  using assms
proof (induction exp_data arbitrary: p)
  case Nil
  then show ?case by (simp add: matched_def)
next
  case (Cons entry rest)
  from Cons.prems obtain p1 where
    s1: "openfe_step openfe_nodes entry p = Inr p1"
    and r: "openfe_loop openfe_nodes rest p1 = Inr q"
    by (auto split: sum.splits)
  show ?case
  proof (cases "in_graph openfe_nodes entry")
    case False
    with s1 have "p1 = p" by (simp add: openfe_step_absent)
    with Cons.IH [OF r] False show ?thesis by (simp add: matched_def)
  next
    case True
    note c = openfe_step_Inr [OF s1 True]
    from s1 openfe_step_present [OF True c, of p]
    have "p1 = \<lparr>fep = fep p @ [fep_dG (snd entry)],
                fep_err = fep_err p @ [fep_dG_err (snd entry)],
                dg_openfe = dg_openfe p @ [node_value openfe_nodes ''calc_DG'' entry],
                openfe_err = openfe_err p @ [node_value openfe_nodes ''calc_dDG'' entry],
                exp = exp p @ [node_value openfe_nodes ''exp_DG'' entry]\<rparr>"
      by simp
    with Cons.IH [OF r] True c show ?thesis by (simp add: matched_def)
  qed
qed

lemma openfe_loop_total:
  assumes "list_all (node_complete openfe_nodes) (matched openfe_nodes exp_data)"
  shows "\<exists>q. openfe_loop openfe_nodes exp_data p = Inr q"
  using assms
proof (induction exp_data arbitrary: p)
  case Nil
  show ?case by simp
next
  case (Cons entry rest)
  show ?case
  proof (cases "in_graph openfe_nodes entry")
    case False
    with Cons show ?thesis by (simp add: matched_def openfe_step_absent)
  next
    case True
    with Cons.prems have c: "node_complete openfe_nodes entry"
      and rest: "list_all (node_complete openfe_nodes) (matched openfe_nodes rest)"
      by (simp_all add: matched_def)
    from Cons.IH [OF rest] openfe_step_present [OF True c, of p] show ?thesis by simp
  qed
qed

lemma openfe_step_error:
  assumes "openfe_step openfe_nodes entry p = Inl e"
  shows "\<exists>k. e = KeyError k"
  using assms
  by (auto simp: openfe_step_def node_field_def bind_err_def split: list.splits option.splits)

lemma openfe_loop_error:
  assumes "openfe_loop openfe_nodes exp_data p = Inl e"
  shows "\<exists>k. e = KeyError k"
  using assms
proof (induction exp_data arbitrary: p)
  case Nil
  then show ?case by simp
next
  case (Cons entry rest)
  then show ?case by (auto split: sum.splits dest: openfe_step_error)
qed

lemma openfe_comparison_no_match:
  assumes "matched femap exp_data = []"
  shows "plot_openfe_schrodinger_comparison env femap exp_data fname stats =
           ([], Some ZeroDivisionError)"
proof -
  let ?p0 = "\<lparr>fep = [], fep_err = [], dg_openfe = [], openfe_err = [], exp = []\<rparr>"
  from openfe_loop_total [of femap exp_data ?p0] assms obtain q where
    q: "openfe_loop femap exp_data ?p0 = Inr q" by auto
  from openfe_loop_Inr [OF q] assms have "exp q = []" by simp
  with q show ?thesis
    by (simp add: plot_openfe_schrodinger_comparison_def bind_err_def py_mean_def)
qed

lemma openfe_comparison_reaches:
  assumes some: "matched femap exp_data \<noteq> []"
    and complete: "list_all (node_complete femap) (matched femap exp_data)"
  shows "plot_openfe_schrodinger_comparison env femap exp_data fname stats =
           ([MasterPlot (openfe_args femap exp_data fname stats)],
            master_plot env (openfe_args femap exp_data fname stats))"
proof -
  let ?p0 = "\<lparr>fep = [], fep_err = [], dg_openfe = [], openfe_err = [], exp = []\<rparr>"
  from openfe_loop_total [OF complete, of ?p0] obtain q where
    q: "openfe_loop femap exp_data ?p0 = Inr q" by auto
  note lists = openfe_loop_Inr [OF q]
  from lists some have ne: "length (exp q) \<noteq> 0" by simp
  from lists have args:
    "\<lparr>x_data = fep q,
      y_data = centre (dg_openfe q) (sum_list (exp q) / real (length (exp q))),
      xerr = fep_err q, yerr = openfe_err q,
      xlabel = ''FEP+'', ylabel = ''OpenFE'', statistics = stats,
      title = ''FEP+ vs OpenFE'', filename = fname,
      shift = None, origins = None, method_name = None, target_name = None\<rparr> =
     openfe_args femap exp_data fname stats"
    by (simp add: openfe_args_def)
  from q ne show ?thesis
    unfolding plot_openfe_schrodinger_comparison_def bind_err_def py_mean_def
    by (simp add: args)
qed

lemma openfe_comparison_incomplete:
  assumes "\<not> list_all (node_complete femap) (matched femap exp_data)"
  shows "\<exists>k. plot_openfe_schrodinger_comparison env femap exp_data fname stats =
           ([], Some (KeyError k))"
proof -
  let ?p0 = "\<lparr>fep = [], fep_err = [], dg_openfe = [], openfe_err = [], exp = []\<rparr>"
  show ?thesis
  proof (cases "openfe_loop femap exp_data ?p0")
    case (Inl e)
    from openfe_loop_error [OF Inl] Inl show ?thesis
      by (auto simp: plot_openfe_schrodinger_comparison_def bind_err_def)
  next
    case (Inr q)
    from openfe_loop_Inr [OF Inr] assms show ?thesis by simp
  qed
qed

lemma openfe_comparison_events:
  assumes "fst (plot_openfe_schrodinger_comparison env femap exp_data fname stats) =
             [MasterPlot a]"
  shows "matched femap exp_data \<noteq> [] \<and>
         list_all (node_complete femap) (matched femap exp_data) \<and>
         a = openfe_args femap exp_data fname stats"
proof (cases "matched femap exp_data = []")
  case True
  from openfe_comparison_no_match [OF True, of env fname stats] assms show ?thesis by simp
next
  case False
  show ?thesis
  proof (cases "list_all (node_complete femap) (matched femap exp_data)")
    case True
    from openfe_comparison_reaches [OF False True, of env fname stats] assms False True
    show ?thesis by simp
  next
    case incomplete: False
    from openfe_comparison_incomplete [OF incomplete, of env fname stats] assms
    show ?thesis by auto
  qed
qed

lemma openfe_comparison_skip:
  assumes "\<not> in_graph femap entry"
  shows "plot_openfe_schrodinger_comparison env femap (pre @ entry # post) fname stats =
         plot_openfe_schrodinger_comparison env femap (pre @ post) fname stats"
  by (simp add: plot_openfe_schrodinger_comparison_def openfe_loop_skip [OF assms])

lemma matched_skip:
  assumes "\<not> in_graph femap entry"
  shows "matched femap (pre @ entry # post) = matched femap (pre @ post)"
  using assms by (simp add: matched_def)

text \<open>
  C7. Let a ligand of the experimental data be no node of the graph. The third-party
  comparison then does exactly what it does on the experimental data without that ligand:
  the same events, the same error or the same return. When it reaches \<^verbatim>\<open>_master_plot\<close>,
  the four arrays it passes are built from the other ligands that are nodes of the graph,
  one element for each, so that the absent ligand has no element and no placeholder in
  any of them. When one of the other ligands is a node of the graph and the matched nodes
  have their attributes, the function does reach \<^verbatim>\<open>_master_plot\<close>.
\<close>

theorem openfe_comparison_excludes_absent:
  assumes "fst entry \<notin> fst ` set femap"
  shows "plot_openfe_schrodinger_comparison env femap (pre @ entry # post) fname stats =
         plot_openfe_schrodinger_comparison env femap (pre @ post) fname stats \<and>
         (\<forall>a. fst (plot_openfe_schrodinger_comparison env femap (pre @ entry # post) fname stats) =
                 [MasterPlot a] \<longrightarrow>
              list_all (node_complete femap) (matched femap (pre @ post)) \<and>
              x_data a = map (\<lambda>e. fep_dG (snd e)) (matched femap (pre @ post)) \<and>
              length (y_data a) = length (matched femap (pre @ post)) \<and>
              xerr a = map (\<lambda>e. fep_dG_err (snd e)) (matched femap (pre @ post)) \<and>
              yerr a = map (node_value femap ''calc_dDG'') (matched femap (pre @ post))) \<and>
         (matched femap (pre @ post) \<noteq> [] \<and>
          list_all (node_complete femap) (matched femap (pre @ post)) \<longrightarrow>
            plot_openfe_schrodinger_comparison env femap (pre @ entry # post) fname stats =
              ([MasterPlot (openfe_args femap (pre @ post) fname stats)],
               master_plot env (openfe_args femap (pre @ post) fname stats)))"
proof -
  from assms have absent: "\<not> in_graph femap entry" by (simp add: in_graph_def)
  note skip = openfe_comparison_skip [OF absent, of env pre post fname stats]
  have arrays: "list_all (node_complete femap) (matched femap (pre @ post)) \<and>
      x_data a = map (\<lambda>e. fep_dG (snd e)) (matched femap (pre @ post)) \<and>
      length (y_data a) = length (matched femap (pre @ post)) \<and>
      xerr a = map (\<lambda>e. fep_dG_err (snd e)) (matched femap (pre @ post)) \<and>
      yerr a = map (node_value femap ''calc_dDG'') (matched femap (pre @ post))"
    if "fst (plot_openfe_schrodinger_comparison env femap (pre @ entry # post) fname stats) =
          [MasterPlot a]" for a
  proof -
    from that skip
    have "fst (plot_openfe_schrodinger_comparison env femap (pre @ post) fname stats) =
        [MasterPlot a]" by simp
    from openfe_comparison_events [OF this]
    have "list_all (node_complete femap) (matched femap (pre @ post))"
      and "a = openfe_args femap (pre @ post) fname stats" by simp_all
    then show ?thesis by (simp add: openfe_args_def centre_def)
  qed
  have reach: "plot_openfe_schrodinger_comparison env femap (pre @ entry # post) fname stats =
      ([MasterPlot (openfe_args femap (pre @ post) fname stats)],
       master_plot env (openfe_args femap (pre @ post) fname stats))"
    if "matched femap (pre @ post) \<noteq> [] \<and>
        list_all (node_complete femap) (matched femap (pre @ post))"
    using that skip openfe_comparison_reaches [of femap "pre @ post" env fname stats] by simp
  from skip arrays reach show ?thesis by blast
qed

theorem openfe_comparison_excludes_absent_witness:
  "plot_openfe_schrodinger_comparison small_sample_env sample_femap sample_exp_data
     ''openfe_schrodinger_dg.png'' reduced_statistics =
     ([MasterPlot
         \<lparr>x_data = [- 9], y_data = [- 10], xerr = [0.02], yerr = [0.5],
          xlabel = ''FEP+'', ylabel = ''OpenFE'', statistics = [''RMSE'', ''MUE''],
          title = ''FEP+ vs OpenFE'', filename = ''openfe_schrodinger_dg.png'',
          shift = None, origins = None, method_name = None, target_name = None\<rparr>],
      None)"
proof -
  let ?lig1 = "(''lig1'', \<lparr>exp_dG = - 10, exp_dG_err = 0, fep_dG = - 9, fep_dG_err = 0.02\<rparr>)"
  let ?lig2 = "(''lig2'', \<lparr>exp_dG = - 8, exp_dG_err = 0, fep_dG = - 7, fep_dG_err = 0.02\<rparr>)"
  have absent: "fst ?lig2 \<notin> fst ` set sample_femap"
    by (simp add: sample_femap_def)
  have m: "matched sample_femap ([?lig1] @ []) = [?lig1]"
    by (simp add: matched_def in_graph_def sample_femap_def)
  have c: "list_all (node_complete sample_femap) [?lig1]"
    by (simp add: node_complete_def sample_femap_def)
  have args: "openfe_args sample_femap ([?lig1] @ []) ''openfe_schrodinger_dg.png''
        reduced_statistics =
      \<lparr>x_data = [- 9], y_data = [- 10], xerr = [0.02], yerr = [0.5],
       xlabel = ''FEP+'', ylabel = ''OpenFE'', statistics = [''RMSE'', ''MUE''],
       title = ''FEP+ vs OpenFE'', filename = ''openfe_schrodinger_dg.png'',
       shift = None, origins = None, method_name = None, target_name = None\<rparr>"
    unfolding openfe_args_def m
    by (simp add: node_value_def sample_femap_def centre_def np_mean_def reduced_statistics_def)
  have pre: "matched sample_femap ([?lig1] @ []) \<noteq> [] \<and>
      list_all (node_complete sample_femap) (matched sample_femap ([?lig1] @ []))"
    unfolding m using c by simp
  from openfe_comparison_excludes_absent [OF absent, of small_sample_env "[?lig1]" "[]"
      "''openfe_schrodinger_dg.png''" reduced_statistics]
  have "matched sample_femap ([?lig1] @ []) \<noteq> [] \<and>
      list_all (node_complete sample_femap) (matched sample_femap ([?lig1] @ [])) \<longrightarrow>
      plot_openfe_schrodinger_comparison small_sample_env sample_femap ([?lig1] @ ?lig2 # [])
          ''openfe_schrodinger_dg.png'' reduced_statistics =
        ([MasterPlot (openfe_args sample_femap ([?lig1] @ []) ''openfe_schrodinger_dg.png''
                        reduced_statistics)],
         master_plot small_sample_env
           (openfe_args sample_femap ([?lig1] @ []) ''openfe_schrodinger_dg.png''
              reduced_statistics))"
    by (rule conjunct2 [THEN conjunct2])
  from this pre
  have "plot_openfe_schrodinger_comparison small_sample_env sample_femap ([?lig1] @ ?lig2 # [])
          ''openfe_schrodinger_dg.png'' reduced_statistics =
        ([MasterPlot (openfe_args sample_femap ([?lig1] @ []) ''openfe_schrodinger_dg.png''
                        reduced_statistics)],
         master_plot small_sample_env
           (openfe_args sample_femap ([?lig1] @ []) ''openfe_schrodinger_dg.png''
              reduced_statistics))"
    by (rule mp)
  then show ?thesis
    unfolding args by (simp add: sample_exp_data_def small_sample_env_def)
qed

section \<open>Properties of the batch of reports and of its retry\<close>

lemma master_plots_append: "master_plots (xs @ ys) = master_plots xs @ master_plots ys"
  by (induction xs rule: master_plots.induct) simp_all

lemma echoes_append: "echoes (xs @ ys) = echoes xs @ echoes ys"
  by (induction xs rule: echoes.induct) simp_all

lemma ddg_plots_append: "ddg_plots (xs @ ys) = ddg_plots xs @ ddg_plots ys"
  by (induction xs rule: ddg_plots.induct) simp_all

lemma plot_femap_trace:
  "list_all (\<lambda>a. statistics a = stats)
     (master_plots (fst (plot_femap env femap exp_data ddg dg stats))) \<and>
   length (master_plots (fst (plot_femap env femap exp_data ddg dg stats))) \<le> 1 \<and>
   ddg_plots (fst (plot_femap env femap exp_data ddg dg stats)) = [ddg] \<and>
   echoes (fst (plot_femap env femap exp_data ddg dg stats)) = []"
  by (auto simp: plot_femap_def bind_err_def split: option.splits sum.splits)

lemma plot_schrodinger_trace:
  "list_all (\<lambda>a. statistics a = stats)
     (master_plots (fst (plot_schrodinger_comparison env exp_data fname stats))) \<and>
   length (master_plots (fst (plot_schrodinger_comparison env exp_data fname stats))) \<le> 1 \<and>
   ddg_plots (fst (plot_schrodinger_comparison env exp_data fname stats)) = [] \<and>
   echoes (fst (plot_schrodinger_comparison env exp_data fname stats)) = []"
  by (auto simp: plot_schrodinger_comparison_def Let_def split: sum.splits)

lemma plot_openfe_trace:
  "list_all (\<lambda>a. statistics a = stats)
     (master_plots (fst (plot_openfe_schrodinger_comparison env femap exp_data fname stats))) \<and>
   length (master_plots
     (fst (plot_openfe_schrodinger_comparison env femap exp_data fname stats))) \<le> 1 \<and>
   ddg_plots (fst (plot_openfe_schrodinger_comparison env femap exp_data fname stats)) = [] \<and>
   echoes (fst (plot_openfe_schrodinger_comparison env femap exp_data fname stats)) = []"
  by (auto simp: plot_openfe_schrodinger_comparison_def bind_err_def split: sum.splits)

lemma then_do_trace:
  "fst (then_do p q) = fst p \<or> fst (then_do p q) = fst p @ fst q"
  by (simp add: then_do_def split: option.splits)

lemma plot_batch_trace:
  "list_all (\<lambda>a. statistics a = stats)
     (master_plots (fst (plot_batch env femap exp_data files stats))) \<and>
   length (master_plots (fst (plot_batch env femap exp_data files stats))) \<le> 3 \<and>
   length (ddg_plots (fst (plot_batch env femap exp_data files stats))) \<le> 1 \<and>
   echoes (fst (plot_batch env femap exp_data files stats)) = []"
proof -
  let ?r1 = "plot_femap env femap exp_data (ddg_plot_filename files) (dg_plot_filename files) stats"
  let ?r2 = "plot_schrodinger_comparison env exp_data (dg_fepplus_plot_filename files) stats"
  let ?r3 = "plot_openfe_schrodinger_comparison env femap exp_data
               (dg_openfe_fepplus_plot_filename files) stats"
  note t1 = plot_femap_trace [of stats env femap exp_data "ddg_plot_filename files"
      "dg_plot_filename files"]
  note t2 = plot_schrodinger_trace [of stats env exp_data "dg_fepplus_plot_filename files"]
  note t3 = plot_openfe_trace [of stats env femap exp_data
      "dg_openfe_fepplus_plot_filename files"]
  have "fst (plot_batch env femap exp_data files stats) = fst ?r1 \<or>
        fst (plot_batch env femap exp_data files stats) = fst ?r1 @ fst ?r2 \<or>
        fst (plot_batch env femap exp_data files stats) = fst ?r1 @ fst ?r2 @ fst ?r3"
    by (simp add: plot_batch_def then_do_def split: option.splits)
  then show ?thesis
    using t1 t2 t3
    by (elim disjE) (simp_all add: master_plots_append ddg_plots_append echoes_append)
qed

lemma plot_batch_outcome:
  "snd (plot_batch env femap exp_data files stats) =
     (case snd (plot_femap env femap exp_data (ddg_plot_filename files)
                  (dg_plot_filename files) stats) of
        Some e \<Rightarrow> Some e
      | None \<Rightarrow>
          (case snd (plot_schrodinger_comparison env exp_data
                       (dg_fepplus_plot_filename files) stats) of
             Some e \<Rightarrow> Some e
           | None \<Rightarrow> snd (plot_openfe_schrodinger_comparison env femap exp_data
                            (dg_openfe_fepplus_plot_filename files) stats)))"
  by (simp add: plot_batch_def then_do_def split: option.splits)

lemma run_plots_retry:
  assumes "snd (plot_batch env femap exp_data files default_statistics) = Some (ValueError v)"
  shows "run_plots env femap exp_data files =
           (fst (plot_batch env femap exp_data files default_statistics) @ [Echo notice] @
            fst (plot_batch env femap exp_data files reduced_statistics),
            snd (plot_batch env femap exp_data files reduced_statistics))"
  using assms
  by (cases "plot_batch env femap exp_data files default_statistics")
    (simp add: run_plots_def then_do_def)

lemma run_plots_no_retry:
  assumes "\<forall>v. snd (plot_batch env femap exp_data files default_statistics) \<noteq> Some (ValueError v)"
  shows "run_plots env femap exp_data files =
           plot_batch env femap exp_data files default_statistics"
  using assms
  by (cases "plot_batch env femap exp_data files default_statistics")
    (auto simp: run_plots_def split: option.splits py_error.splits)

lemma plot_femap_empty:
  assumes "plot_DDGs env femap ddg = None"
  shows "plot_femap env femap [] ddg dg stats = ([PlotDDGs femap ddg], Some ZeroDivisionError)"
  using assms by (simp add: plot_femap_def py_mean_def bind_err_def)

text \<open>
  C10. When no ligand of the experimental data is a node of the graph, the third-party
  comparison raises \<^verbatim>\<open>ZeroDivisionError\<close> before any plotting call; when the experimental
  data is empty and \<^verbatim>\<open>plot_DDGs\<close> returns, \<^verbatim>\<open>plot_femap\<close> raises \<^verbatim>\<open>ZeroDivisionError\<close>.
  In \<^verbatim>\<open>run\<close>, a \<^verbatim>\<open>ZeroDivisionError\<close> of the first batch is not caught: nothing is
  printed, nothing is retried, and the error is the outcome; one raised in the batch of
  the fallback is the outcome as well.
\<close>

theorem empty_mean_raises_zero_division:
  "((\<forall>entry \<in> set exp_data. fst entry \<notin> fst ` set femap) \<longrightarrow>
      plot_openfe_schrodinger_comparison env femap exp_data fname stats =
        ([], Some ZeroDivisionError)) \<and>
   (plot_DDGs env femap ddg = None \<longrightarrow>
      plot_femap env femap [] ddg dg stats = ([PlotDDGs femap ddg], Some ZeroDivisionError)) \<and>
   (snd (plot_batch env femap exp_data files default_statistics) = Some ZeroDivisionError \<longrightarrow>
      run_plots env femap exp_data files =
        plot_batch env femap exp_data files default_statistics \<and>
      echoes (fst (run_plots env femap exp_data files)) = []) \<and>
   (snd (plot_batch env femap exp_data files default_statistics) = Some (ValueError v) \<and>
    snd (plot_batch env femap exp_data files reduced_statistics) = Some ZeroDivisionError \<longrightarrow>
      snd (run_plots env femap exp_data files) = Some ZeroDivisionError) \<and>
   (plot_DDGs env femap (ddg_plot_filename files) = None \<longrightarrow>
      run_plots env femap [] files =
        ([PlotDDGs femap (ddg_plot_filename files)], Some ZeroDivisionError)) \<and>
   ((\<forall>entry \<in> set exp_data. fst entry \<notin> fst ` set femap) \<and>
    snd (plot_femap env femap exp_data (ddg_plot_filename files) (dg_plot_filename files)
           default_statistics) = None \<and>
    snd (plot_schrodinger_comparison env exp_data (dg_fepplus_plot_filename files)
           default_statistics) = None \<longrightarrow>
      snd (run_plots env femap exp_data files) = Some ZeroDivisionError)"
proof (intro conjI impI)
  assume "\<forall>entry \<in> set exp_data. fst entry \<notin> fst ` set femap"
  then have "matched femap exp_data = []"
    by (auto simp: matched_def in_graph_def filter_empty_conv)
  then show "plot_openfe_schrodinger_comparison env femap exp_data fname stats =
      ([], Some ZeroDivisionError)"
    by (rule openfe_comparison_no_match)
next
  assume "plot_DDGs env femap ddg = None"
  then show "plot_femap env femap [] ddg dg stats = ([PlotDDGs femap ddg], Some ZeroDivisionError)"
    by (rule plot_femap_empty)
next
  assume z: "snd (plot_batch env femap exp_data files default_statistics) = Some ZeroDivisionError"
  then have "\<forall>v. snd (plot_batch env femap exp_data files default_statistics) \<noteq>
      Some (ValueError v)" by simp
  from run_plots_no_retry [OF this]
  show same: "run_plots env femap exp_data files =
      plot_batch env femap exp_data files default_statistics" .
  show "echoes (fst (run_plots env femap exp_data files)) = []"
    unfolding same using plot_batch_trace [of default_statistics env femap exp_data files]
    by simp
next
  assume "snd (plot_batch env femap exp_data files default_statistics) = Some (ValueError v) \<and>
    snd (plot_batch env femap exp_data files reduced_statistics) = Some ZeroDivisionError"
  then show "snd (run_plots env femap exp_data files) = Some ZeroDivisionError"
    using run_plots_retry [of env femap exp_data files v] by simp
next
  assume d: "plot_DDGs env femap (ddg_plot_filename files) = None"
  have b: "plot_batch env femap [] files default_statistics =
      ([PlotDDGs femap (ddg_plot_filename files)], Some ZeroDivisionError)"
    by (simp add: plot_batch_def then_do_def plot_femap_empty [OF d])
  then have "\<forall>v. snd (plot_batch env femap [] files default_statistics) \<noteq> Some (ValueError v)"
    by simp
  from run_plots_no_retry [OF this] b
  show "run_plots env femap [] files =
      ([PlotDDGs femap (ddg_plot_filename files)], Some ZeroDivisionError)"
    by simp
next
  assume a: "(\<forall>entry \<in> set exp_data. fst entry \<notin> fst ` set femap) \<and>
    snd (plot_femap env femap exp_data (ddg_plot_filename files) (dg_plot_filename files)
           default_statistics) = None \<and>
    snd (plot_schrodinger_comparison env exp_data (dg_fepplus_plot_filename files)
           default_statistics) = None"
  then have "matched femap exp_data = []"
    by (auto simp: matched_def in_graph_def filter_empty_conv)
  from openfe_comparison_no_match [OF this, of env "dg_openfe_fepplus_plot_filename files"
      default_statistics] a
  have z: "snd (plot_batch env femap exp_data files default_statistics) = Some ZeroDivisionError"
    by (simp add: plot_batch_outcome)
  then have "\<forall>v. snd (plot_batch env femap exp_data files default_statistics) \<noteq>
      Some (ValueError v)" by simp
  from run_plots_no_retry [OF this] z
  show "snd (run_plots env femap exp_data files) = Some ZeroDivisionError" by simp
qed

lemma sample_plot_outcomes:
  "snd (plot_femap quiet_env sample_femap unmatched_exp_data f g stats) = None"
  "snd (plot_schrodinger_comparison quiet_env unmatched_exp_data f stats) = None"
  "snd (plot_femap small_sample_env sample_femap unmatched_exp_data f g default_statistics) =
     Some (ValueError (Library ''small sample''))"
  "snd (plot_femap small_sample_env sample_femap unmatched_exp_data f g reduced_statistics) = None"
  "snd (plot_schrodinger_comparison small_sample_env unmatched_exp_data f reduced_statistics) =
     None"
  by (simp_all add: plot_femap_def plot_schrodinger_comparison_def quiet_env_def
      small_sample_env_def sample_femap_def unmatched_exp_data_def py_mean_def bind_err_def
      node_field_def centre_def default_statistics_def reduced_statistics_def Let_def)

lemma unmatched_sample: "\<forall>entry \<in> set unmatched_exp_data. fst entry \<notin> fst ` set sample_femap"
  by (simp add: unmatched_exp_data_def sample_femap_def)

theorem empty_mean_raises_zero_division_witness:
  "plot_openfe_schrodinger_comparison quiet_env sample_femap unmatched_exp_data
     ''openfe_schrodinger_dg.png'' default_statistics = ([], Some ZeroDivisionError) \<and>
   plot_femap quiet_env sample_femap [] ''openfe_experiment_ddg.png''
     ''openfe_experiment_dg.png'' default_statistics =
     ([PlotDDGs sample_femap ''openfe_experiment_ddg.png''], Some ZeroDivisionError) \<and>
   run_plots quiet_env sample_femap unmatched_exp_data sample_files =
     plot_batch quiet_env sample_femap unmatched_exp_data sample_files default_statistics \<and>
   snd (run_plots quiet_env sample_femap unmatched_exp_data sample_files) =
     Some ZeroDivisionError \<and>
   snd (run_plots small_sample_env sample_femap unmatched_exp_data sample_files) =
     Some ZeroDivisionError \<and>
   run_plots quiet_env sample_femap [] sample_files =
     ([PlotDDGs sample_femap ''openfe_experiment_ddg.png''], Some ZeroDivisionError)"
proof -
  note zd = empty_mean_raises_zero_division
  have third: "snd (plot_openfe_schrodinger_comparison env sample_femap unmatched_exp_data
      f stats) = Some ZeroDivisionError" for env f stats
    using zd [of unmatched_exp_data sample_femap env f stats] unmatched_sample by simp
  have quiet: "plot_DDGs quiet_env g f = None" for g f
    by (simp add: quiet_env_def)
  have bq: "snd (plot_batch quiet_env sample_femap unmatched_exp_data sample_files
      default_statistics) = Some ZeroDivisionError"
    by (simp add: plot_batch_outcome sample_plot_outcomes third)
  have bs: "snd (plot_batch small_sample_env sample_femap unmatched_exp_data sample_files
      default_statistics) = Some (ValueError (Library ''small sample''))"
    by (simp add: plot_batch_outcome sample_plot_outcomes)
  have br: "snd (plot_batch small_sample_env sample_femap unmatched_exp_data sample_files
      reduced_statistics) = Some ZeroDivisionError"
    by (simp add: plot_batch_outcome sample_plot_outcomes third)
  have c1: "plot_openfe_schrodinger_comparison quiet_env sample_femap unmatched_exp_data
      ''openfe_schrodinger_dg.png'' default_statistics = ([], Some ZeroDivisionError)"
    using zd [of unmatched_exp_data sample_femap quiet_env "''openfe_schrodinger_dg.png''"
        default_statistics] unmatched_sample by simp
  have c2: "plot_femap quiet_env sample_femap [] ''openfe_experiment_ddg.png''
      ''openfe_experiment_dg.png'' default_statistics =
      ([PlotDDGs sample_femap ''openfe_experiment_ddg.png''], Some ZeroDivisionError)"
    using zd [of _ sample_femap quiet_env _ default_statistics "''openfe_experiment_ddg.png''"
        "''openfe_experiment_dg.png''"] quiet by simp
  have c3: "run_plots quiet_env sample_femap unmatched_exp_data sample_files =
      plot_batch quiet_env sample_femap unmatched_exp_data sample_files default_statistics"
    using zd [of unmatched_exp_data sample_femap quiet_env _ _ _ _ sample_files] bq by simp
  have c4: "snd (run_plots quiet_env sample_femap unmatched_exp_data sample_files) =
      Some ZeroDivisionError"
    using zd [of unmatched_exp_data sample_femap quiet_env _ _ _ _ sample_files]
      unmatched_sample sample_plot_outcomes(1,2) by simp
  have c5: "snd (run_plots small_sample_env sample_femap unmatched_exp_data sample_files) =
      Some ZeroDivisionError"
    using zd [of unmatched_exp_data sample_femap small_sample_env _ _ _ _ sample_files
        "Library ''small sample''"] bs br by simp
  have c6: "run_plots quiet_env sample_femap [] sample_files =
      ([PlotDDGs sample_femap ''openfe_experiment_ddg.png''], Some ZeroDivisionError)"
    using zd [of _ sample_femap quiet_env _ _ _ _ sample_files] quiet
    by (simp add: sample_files_def)
  from c1 c2 c3 c4 c5 c6 show ?thesis by blast
qed

lemma plot_femap_returns:
  assumes "snd (plot_femap env femap exp_data ddg dg stats) = None"
  shows "map filename (master_plots (fst (plot_femap env femap exp_data ddg dg stats))) = [dg]"
  using assms
  by (auto simp: plot_femap_def bind_err_def split: option.splits sum.splits)

lemma plot_schrodinger_returns:
  assumes "snd (plot_schrodinger_comparison env exp_data fname stats) = None"
  shows "map filename (master_plots (fst (plot_schrodinger_comparison env exp_data fname stats))) =
           [fname]"
  using assms
  by (auto simp: plot_schrodinger_comparison_def Let_def split: sum.splits)

lemma plot_openfe_returns:
  assumes "snd (plot_openfe_schrodinger_comparison env femap exp_data fname stats) = None"
  shows "map filename (master_plots
           (fst (plot_openfe_schrodinger_comparison env femap exp_data fname stats))) = [fname]"
  using assms
  by (auto simp: plot_openfe_schrodinger_comparison_def bind_err_def split: sum.splits)

lemma plot_batch_returns:
  assumes "snd (plot_batch env femap exp_data files stats) = None"
  shows "map filename (master_plots (fst (plot_batch env femap exp_data files stats))) =
           [dg_plot_filename files, dg_fepplus_plot_filename files,
            dg_openfe_fepplus_plot_filename files] \<and>
         ddg_plots (fst (plot_batch env femap exp_data files stats)) = [ddg_plot_filename files]"
proof -
  let ?r1 = "plot_femap env femap exp_data (ddg_plot_filename files) (dg_plot_filename files) stats"
  let ?r2 = "plot_schrodinger_comparison env exp_data (dg_fepplus_plot_filename files) stats"
  let ?r3 = "plot_openfe_schrodinger_comparison env femap exp_data
               (dg_openfe_fepplus_plot_filename files) stats"
  from assms have n: "snd ?r1 = None" "snd ?r2 = None" "snd ?r3 = None"
    by (auto simp: plot_batch_outcome split: option.splits)
  then have tr: "fst (plot_batch env femap exp_data files stats) = fst ?r1 @ fst ?r2 @ fst ?r3"
    by (simp add: plot_batch_def then_do_def)
  note t1 = plot_femap_trace [of stats env femap exp_data "ddg_plot_filename files"
      "dg_plot_filename files"]
  note t2 = plot_schrodinger_trace [of stats env exp_data "dg_fepplus_plot_filename files"]
  note t3 = plot_openfe_trace [of stats env femap exp_data
      "dg_openfe_fepplus_plot_filename files"]
  show ?thesis
    unfolding tr
    using plot_femap_returns [OF n(1)] plot_schrodinger_returns [OF n(2)]
      plot_openfe_returns [OF n(3)] t1 t2 t3
    by (simp add: master_plots_append ddg_plots_append)
qed

text \<open>
  C4. Let one of the three plot reports of \<^verbatim>\<open>run\<close> raise a \<^verbatim>\<open>ValueError\<close> (the
  exception of a correlation statistic that cannot be computed), the reports before it
  having returned. Then \<^verbatim>\<open>run\<close> prints the notice, once, and runs the batch of three
  reports once more with the statistics \<^verbatim>\<open>["RMSE", "MUE"]\<close>: its events are those of the
  first batch, the notice, and those of the second batch; every call of \<^verbatim>\<open>_master_plot\<close>
  of the second batch asks for \<^verbatim>\<open>["RMSE", "MUE"]\<close>; the outcome of \<^verbatim>\<open>run\<close> is the outcome
  of the second batch, so that an error of the second batch, a \<^verbatim>\<open>ValueError\<close> included,
  propagates and nothing is run a third time. If the second batch returns, it has made the
  relative-difference plot and the three reports.
\<close>

theorem run_retries_once_with_reduced_statistics:
  assumes "snd (plot_femap env femap exp_data (ddg_plot_filename files) (dg_plot_filename files)
                  default_statistics) = Some (ValueError v) \<or>
           snd (plot_femap env femap exp_data (ddg_plot_filename files) (dg_plot_filename files)
                  default_statistics) = None \<and>
           snd (plot_schrodinger_comparison env exp_data (dg_fepplus_plot_filename files)
                  default_statistics) = Some (ValueError v) \<or>
           snd (plot_femap env femap exp_data (ddg_plot_filename files) (dg_plot_filename files)
                  default_statistics) = None \<and>
           snd (plot_schrodinger_comparison env exp_data (dg_fepplus_plot_filename files)
                  default_statistics) = None \<and>
           snd (plot_openfe_schrodinger_comparison env femap exp_data
                  (dg_openfe_fepplus_plot_filename files) default_statistics) =
             Some (ValueError v)"
  shows "run_plots env femap exp_data files =
           (fst (plot_batch env femap exp_data files default_statistics) @ [Echo notice] @
            fst (plot_batch env femap exp_data files reduced_statistics),
            snd (plot_batch env femap exp_data files reduced_statistics)) \<and>
         echoes (fst (run_plots env femap exp_data files)) = [notice] \<and>
         list_all (\<lambda>a. statistics a = [''RMSE'', ''MUE''])
           (master_plots (fst (plot_batch env femap exp_data files reduced_statistics))) \<and>
         length (master_plots (fst (run_plots env femap exp_data files))) \<le> 6 \<and>
         length (ddg_plots (fst (run_plots env femap exp_data files))) \<le> 2 \<and>
         (snd (run_plots env femap exp_data files) = None \<longrightarrow>
            map filename (master_plots
              (fst (plot_batch env femap exp_data files reduced_statistics))) =
              [dg_plot_filename files, dg_fepplus_plot_filename files,
               dg_openfe_fepplus_plot_filename files] \<and>
            ddg_plots (fst (plot_batch env femap exp_data files reduced_statistics)) =
              [ddg_plot_filename files])"
proof -
  from assms
  have first: "snd (plot_batch env femap exp_data files default_statistics) = Some (ValueError v)"
    by (auto simp: plot_batch_outcome)
  note r = run_plots_retry [OF first]
  note t1 = plot_batch_trace [of default_statistics env femap exp_data files]
  note t2 = plot_batch_trace [of reduced_statistics env femap exp_data files]
  have e: "echoes (fst (run_plots env femap exp_data files)) = [notice]"
    unfolding r using t1 t2 by (simp add: echoes_append)
  have s: "list_all (\<lambda>a. statistics a = [''RMSE'', ''MUE''])
      (master_plots (fst (plot_batch env femap exp_data files reduced_statistics)))"
    using t2 by (simp add: reduced_statistics_def)
  have m: "length (master_plots (fst (run_plots env femap exp_data files))) \<le> 6"
    unfolding r using t1 t2 by (simp add: master_plots_append)
  have d: "length (ddg_plots (fst (run_plots env femap exp_data files))) \<le> 2"
    unfolding r using t1 t2 by (simp add: ddg_plots_append)
  have all: "map filename (master_plots
        (fst (plot_batch env femap exp_data files reduced_statistics))) =
        [dg_plot_filename files, dg_fepplus_plot_filename files,
         dg_openfe_fepplus_plot_filename files] \<and>
      ddg_plots (fst (plot_batch env femap exp_data files reduced_statistics)) =
        [ddg_plot_filename files]"
    if "snd (run_plots env femap exp_data files) = None"
  proof -
    from that r have "snd (plot_batch env femap exp_data files reduced_statistics) = None"
      by simp
    then show ?thesis by (rule plot_batch_returns)
  qed
  from r e s m d all show ?thesis by blast
qed

lemma sample_retry_outcomes:
  "snd (plot_femap small_sample_env sample_femap sample_exp_data f g default_statistics) =
     Some (ValueError (Library ''small sample''))"
  "snd (plot_femap small_sample_env sample_femap sample_exp_data f g reduced_statistics) = None"
  "snd (plot_schrodinger_comparison small_sample_env sample_exp_data f reduced_statistics) = None"
  "snd (plot_openfe_schrodinger_comparison small_sample_env sample_femap sample_exp_data f
          reduced_statistics) = None"
  "snd (plot_femap failing_env sample_femap sample_exp_data f g stats) =
     Some (ValueError (Library ''no statistics''))"
  by (simp_all add: plot_femap_def plot_schrodinger_comparison_def
      plot_openfe_schrodinger_comparison_def openfe_step_def failing_env_def
      small_sample_env_def sample_femap_def sample_exp_data_def py_mean_def bind_err_def
      node_field_def centre_def default_statistics_def reduced_statistics_def Let_def)

theorem run_retries_once_with_reduced_statistics_witness:
  "echoes (fst (run_plots small_sample_env sample_femap sample_exp_data sample_files)) =
     [notice] \<and>
   snd (run_plots small_sample_env sample_femap sample_exp_data sample_files) = None \<and>
   map filename (master_plots
     (fst (plot_batch small_sample_env sample_femap sample_exp_data sample_files
             reduced_statistics))) =
     [''openfe_experiment_dg.png'', ''schrodinger_experiment_dg.png'',
      ''openfe_schrodinger_dg.png''] \<and>
   echoes (fst (run_plots failing_env sample_femap sample_exp_data sample_files)) = [notice] \<and>
   snd (run_plots failing_env sample_femap sample_exp_data sample_files) =
     Some (ValueError (Library ''no statistics''))"
proof -
  note retry = run_retries_once_with_reduced_statistics
  have h1: "snd (plot_femap small_sample_env sample_femap sample_exp_data
      (ddg_plot_filename sample_files) (dg_plot_filename sample_files) default_statistics) =
      Some (ValueError (Library ''small sample''))"
    by (rule sample_retry_outcomes)
  have b1: "snd (plot_batch small_sample_env sample_femap sample_exp_data sample_files
      reduced_statistics) = None"
    by (simp add: plot_batch_outcome sample_retry_outcomes)
  note r1 = retry [of small_sample_env sample_femap sample_exp_data sample_files
      "Library ''small sample''", OF disjI1, OF h1]
  from r1 have e1: "echoes (fst (run_plots small_sample_env sample_femap sample_exp_data
      sample_files)) = [notice]" by blast
  from r1 b1 have o1: "snd (run_plots small_sample_env sample_femap sample_exp_data
      sample_files) = None" by simp
  from r1 o1 have f1: "map filename (master_plots
      (fst (plot_batch small_sample_env sample_femap sample_exp_data sample_files
              reduced_statistics))) =
      [dg_plot_filename sample_files, dg_fepplus_plot_filename sample_files,
       dg_openfe_fepplus_plot_filename sample_files]" by blast
  have h2: "snd (plot_femap failing_env sample_femap sample_exp_data
      (ddg_plot_filename sample_files) (dg_plot_filename sample_files) default_statistics) =
      Some (ValueError (Library ''no statistics''))"
    by (rule sample_retry_outcomes)
  have b2: "snd (plot_batch failing_env sample_femap sample_exp_data sample_files
      reduced_statistics) = Some (ValueError (Library ''no statistics''))"
    by (simp add: plot_batch_outcome sample_retry_outcomes)
  note r2 = retry [of failing_env sample_femap sample_exp_data sample_files
      "Library ''no statistics''", OF disjI1, OF h2]
  from r2 have e2: "echoes (fst (run_plots failing_env sample_femap sample_exp_data
      sample_files)) = [notice]" by blast
  from r2 b2 have o2: "snd (run_plots failing_env sample_femap sample_exp_data sample_files) =
      Some (ValueError (Library ''no statistics''))" by simp
  from e1 o1 f1 e2 o2 show ?thesis by (simp add: sample_files_def)
qed

section \<open>The centering shift\<close>

lemma py_mean_exp_mean:
  assumes "py_mean (map (\<lambda>i. exp_dG (snd i)) exp_data) = Inr sh"
  shows "exp_data \<noteq> [] \<and> sh = exp_mean exp_data"
  using assms by (auto simp: py_mean_def exp_mean_def split: if_splits)

lemma plot_femap_args:
  assumes "master_plots (fst (plot_femap env femap exp_data ddg dg stats)) = [a]"
  shows "\<exists>xs ys. collect (\<lambda>n. node_field n ''exp_DG'') femap = Inr xs \<and>
           collect (\<lambda>n. node_field n ''calc_DG'') femap = Inr ys \<and>
           exp_data \<noteq> [] \<and>
           x_data a = centre xs (exp_mean exp_data) \<and>
           y_data a = centre ys (exp_mean exp_data)"
proof (cases "py_mean (map (\<lambda>i. exp_dG (snd i)) exp_data)")
  case (Inl e)
  with assms show ?thesis
    by (simp add: plot_femap_def bind_err_def split: option.splits)
next
  case (Inr sh)
  from py_mean_exp_mean [OF Inr] have ne: "exp_data \<noteq> []" and sh: "sh = exp_mean exp_data"
    by simp_all
  from assms Inr show ?thesis
    unfolding sh
    by (auto simp: plot_femap_def bind_err_def ne split: option.splits sum.splits)
qed

lemma plot_schrodinger_args:
  assumes "master_plots (fst (plot_schrodinger_comparison env exp_data fname stats)) = [a]"
  shows "exp_data \<noteq> [] \<and> shift a = Some (exp_mean exp_data)"
proof (cases "py_mean (map (\<lambda>i. exp_dG (snd i)) exp_data)")
  case (Inl e)
  with assms show ?thesis by (simp add: plot_schrodinger_comparison_def)
next
  case (Inr sh)
  from py_mean_exp_mean [OF Inr] assms Inr show ?thesis
    by (auto simp: plot_schrodinger_comparison_def Let_def)
qed

lemma plot_openfe_args:
  assumes "master_plots (fst (plot_openfe_schrodinger_comparison env femap exp_data fname stats)) =
             [a]"
  shows "matched femap exp_data \<noteq> [] \<and>
         list_all (node_complete femap) (matched femap exp_data) \<and>
         a = openfe_args femap exp_data fname stats"
proof -
  from assms
  have "fst (plot_openfe_schrodinger_comparison env femap exp_data fname stats) = [MasterPlot a]"
    by (auto simp: plot_openfe_schrodinger_comparison_def split: sum.splits)
  then show ?thesis by (rule openfe_comparison_events)
qed

text \<open>
  C3, as the specification states it, fails for the third-party comparison. With
  experimental data for \<^verbatim>\<open>lig1\<close> (dG -10) and \<^verbatim>\<open>lig2\<close> (dG -8) and a graph whose only
  node is \<^verbatim>\<open>lig1\<close>, the computed array is centred with the shift -10, the mean over the
  ligands that are also nodes, and not with -9, the mean over all the ligands of the file.
\<close>

theorem openfe_comparison_shift_counterexample:
  "map y_data (master_plots (fst (plot_openfe_schrodinger_comparison quiet_env sample_femap
      sample_exp_data ''openfe_schrodinger_dg.png'' default_statistics))) =
     [centre [- 9.5] (- 10)] \<and>
   exp_mean sample_exp_data = - 9 \<and>
   centre [- 9.5] (- 10) \<noteq> centre [- 9.5] (exp_mean sample_exp_data)"
  by (simp add: plot_openfe_schrodinger_comparison_def openfe_step_def quiet_env_def
      sample_femap_def sample_exp_data_def py_mean_def bind_err_def node_field_def
      centre_def np_mean_def exp_mean_def)

text \<open>
  C3, amended. In the computed-vs-experiment report (\<^verbatim>\<open>plot_femap\<close>) both plotted arrays
  are centred with the arithmetic mean of the experimental dG over all the ligands of the
  experimental data, and the third-party-vs-experiment report passes that same mean as its
  shift. In the computed-vs-third-party report the shift is the arithmetic mean of the
  \<^verbatim>\<open>exp_DG\<close> attribute of the graph nodes over those ligands of the experimental data that
  are nodes of the graph, and it centres the computed array only: the third-party array is
  passed as it is.
\<close>

theorem centering_shift_of_reports:
  "(master_plots (fst (plot_femap env femap exp_data ddg dg stats)) = [a] \<longrightarrow>
      (\<exists>xs ys. collect (\<lambda>n. node_field n ''exp_DG'') femap = Inr xs \<and>
         collect (\<lambda>n. node_field n ''calc_DG'') femap = Inr ys \<and>
         exp_data \<noteq> [] \<and>
         x_data a = centre xs (exp_mean exp_data) \<and>
         y_data a = centre ys (exp_mean exp_data))) \<and>
   (master_plots (fst (plot_schrodinger_comparison env exp_data fname stats)) = [b] \<longrightarrow>
      exp_data \<noteq> [] \<and> shift b = Some (exp_mean exp_data)) \<and>
   (master_plots (fst (plot_openfe_schrodinger_comparison env femap exp_data fname stats)) = [c] \<longrightarrow>
      matched femap exp_data \<noteq> [] \<and>
      list_all (node_complete femap) (matched femap exp_data) \<and>
      x_data c = map (\<lambda>e. fep_dG (snd e)) (matched femap exp_data) \<and>
      y_data c =
        centre (map (node_value femap ''calc_DG'') (matched femap exp_data))
          (sum_list (map (node_value femap ''exp_DG'') (matched femap exp_data)) /
           real (length (matched femap exp_data))))"
proof (intro conjI impI)
  assume "master_plots (fst (plot_femap env femap exp_data ddg dg stats)) = [a]"
  then show "\<exists>xs ys. collect (\<lambda>n. node_field n ''exp_DG'') femap = Inr xs \<and>
      collect (\<lambda>n. node_field n ''calc_DG'') femap = Inr ys \<and>
      exp_data \<noteq> [] \<and>
      x_data a = centre xs (exp_mean exp_data) \<and>
      y_data a = centre ys (exp_mean exp_data)"
    by (rule plot_femap_args)
next
  assume "master_plots (fst (plot_schrodinger_comparison env exp_data fname stats)) = [b]"
  from plot_schrodinger_args [OF this]
  show "exp_data \<noteq> []" and "shift b = Some (exp_mean exp_data)" by simp_all
next
  assume "master_plots (fst (plot_openfe_schrodinger_comparison env femap exp_data fname stats)) =
      [c]"
  from plot_openfe_args [OF this]
  have ne: "matched femap exp_data \<noteq> []"
    and complete: "list_all (node_complete femap) (matched femap exp_data)"
    and c: "c = openfe_args femap exp_data fname stats" by simp_all
  show "matched femap exp_data \<noteq> []" by (rule ne)
  show "list_all (node_complete femap) (matched femap exp_data)" by (rule complete)
  show "x_data c = map (\<lambda>e. fep_dG (snd e)) (matched femap exp_data)"
    unfolding c by (simp add: openfe_args_def)
  show "y_data c =
      centre (map (node_value femap ''calc_DG'') (matched femap exp_data))
        (sum_list (map (node_value femap ''exp_DG'') (matched femap exp_data)) /
         real (length (matched femap exp_data)))"
    unfolding c by (simp add: openfe_args_def)
qed

theorem centering_shift_of_reports_witness:
  "(\<exists>a. master_plots (fst (plot_femap quiet_env sample_femap sample_exp_data
            ''openfe_experiment_ddg.png'' ''openfe_experiment_dg.png'' default_statistics)) = [a] \<and>
        x_data a = centre [- 10] (- 9) \<and> y_data a = centre [- 9.5] (- 9)) \<and>
   (\<exists>b. master_plots (fst (plot_schrodinger_comparison quiet_env sample_exp_data
            ''schrodinger_experiment_dg.png'' default_statistics)) = [b] \<and>
        shift b = Some (- 9)) \<and>
   (\<exists>c. master_plots (fst (plot_openfe_schrodinger_comparison quiet_env sample_femap
            sample_exp_data ''openfe_schrodinger_dg.png'' default_statistics)) = [c] \<and>
        x_data c = [- 9] \<and> y_data c = centre [- 9.5] (- 10))"
proof (intro conjI)
  note defs = quiet_env_def sample_femap_def sample_exp_data_def py_mean_def bind_err_def
    node_field_def
  have m: "exp_mean sample_exp_data = - 9"
    by (simp add: exp_mean_def sample_exp_data_def)
  have xs: "collect (\<lambda>n. node_field n ''exp_DG'') sample_femap = Inr [- 10]"
    and ys: "collect (\<lambda>n. node_field n ''calc_DG'') sample_femap = Inr [- 9.5]"
    by (simp_all add: defs)
  obtain a where a: "master_plots (fst (plot_femap quiet_env sample_femap sample_exp_data
      ''openfe_experiment_ddg.png'' ''openfe_experiment_dg.png'' default_statistics)) = [a]"
    by (simp add: plot_femap_def defs)
  from centering_shift_of_reports [of quiet_env sample_femap sample_exp_data
      "''openfe_experiment_ddg.png''" "''openfe_experiment_dg.png''" default_statistics a] a
  have "\<exists>xs ys. collect (\<lambda>n. node_field n ''exp_DG'') sample_femap = Inr xs \<and>
      collect (\<lambda>n. node_field n ''calc_DG'') sample_femap = Inr ys \<and>
      sample_exp_data \<noteq> [] \<and>
      x_data a = centre xs (exp_mean sample_exp_data) \<and>
      y_data a = centre ys (exp_mean sample_exp_data)"
    by blast
  then have "x_data a = centre [- 10] (- 9) \<and> y_data a = centre [- 9.5] (- 9)"
    unfolding xs ys m by auto
  with a show "\<exists>a. master_plots (fst (plot_femap quiet_env sample_femap sample_exp_data
      ''openfe_experiment_ddg.png'' ''openfe_experiment_dg.png'' default_statistics)) = [a] \<and>
      x_data a = centre [- 10] (- 9) \<and> y_data a = centre [- 9.5] (- 9)"
    by blast
  obtain b where b: "master_plots (fst (plot_schrodinger_comparison quiet_env sample_exp_data
      ''schrodinger_experiment_dg.png'' default_statistics)) = [b]"
    by (simp add: plot_schrodinger_comparison_def defs Let_def)
  from centering_shift_of_reports [of quiet_env _ sample_exp_data _ _ default_statistics _
      "''schrodinger_experiment_dg.png''" b] b
  have "shift b = Some (exp_mean sample_exp_data)" by blast
  with b m show "\<exists>b. master_plots (fst (plot_schrodinger_comparison quiet_env sample_exp_data
      ''schrodinger_experiment_dg.png'' default_statistics)) = [b] \<and> shift b = Some (- 9)"
    by auto
  obtain c where c: "master_plots (fst (plot_openfe_schrodinger_comparison quiet_env sample_femap
      sample_exp_data ''openfe_schrodinger_dg.png'' default_statistics)) = [c]"
    by (simp add: plot_openfe_schrodinger_comparison_def openfe_step_def defs)
  have mt: "matched sample_femap sample_exp_data =
      [(''lig1'', \<lparr>exp_dG = - 10, exp_dG_err = 0, fep_dG = - 9, fep_dG_err = 0.02\<rparr>)]"
    by (simp add: matched_def in_graph_def sample_femap_def sample_exp_data_def)
  from centering_shift_of_reports [of quiet_env sample_femap sample_exp_data _ _
      default_statistics _ "''openfe_schrodinger_dg.png''" _ c] c
  have "x_data c = map (\<lambda>e. fep_dG (snd e)) (matched sample_femap sample_exp_data) \<and>
      y_data c =
        centre (map (node_value sample_femap ''calc_DG'') (matched sample_femap sample_exp_data))
          (sum_list (map (node_value sample_femap ''exp_DG'')
                       (matched sample_femap sample_exp_data)) /
           real (length (matched sample_femap sample_exp_data)))"
    by blast
  then have "x_data c = [- 9] \<and> y_data c = centre [- 9.5] (- 10)"
    unfolding mt by (simp add: node_value_def sample_femap_def)
  with c show "\<exists>c. master_plots (fst (plot_openfe_schrodinger_comparison quiet_env sample_femap
      sample_exp_data ''openfe_schrodinger_dg.png'' default_statistics)) = [c] \<and>
      x_data c = [- 9] \<and> y_data c = centre [- 9.5] (- 10)"
    by blast
qed

section \<open>Properties of the renaming utility\<close>

lemma rename_mapped:
  assumes "mapped name_mapping row"
  shows "rename name_mapping row = Inr (the (name_mapping (ligand_name row)))"
  using assms
  by (auto simp: mapped_def rename_def series_get_def bind_err_def ligand_name_def
      Option.is_none_def)

lemma rename_unmapped:
  assumes "\<not> Option.is_none (map_of row ''Ligand Name'')"
    and "name_mapping (ligand_name row) = None"
  shows "rename name_mapping row = Inl (RuntimeError (conversion_error (ligand_name row)))"
  using assms
  by (auto simp: rename_def series_get_def bind_err_def ligand_name_def Option.is_none_def)

lemma collect_all:
  assumes "\<forall>x \<in> set xs. f x = Inr (g x)"
  shows "collect f xs = Inr (map g xs)"
  using assms by (induction xs) (simp_all add: bind_err_def)

lemma collect_first_error:
  assumes "\<forall>x \<in> set pre. f x = Inr (g x)" and "f bad = Inl e"
  shows "collect f (pre @ bad # post) = Inl e"
  using assms by (induction pre) (simp_all add: bind_err_def)

lemma set_column_renamed:
  "set_column ''Ligand Name'' (map (\<lambda>row. Text (the (name_mapping (ligand_name row)))) df) df =
     map (renamed name_mapping) df"
  by (induction df) (simp_all add: set_column_def renamed_def)

lemma update_nth_other:
  assumes "j < length al" and "fst (al ! j) \<noteq> k"
  shows "AList.update k v al ! j = al ! j"
  using assms
proof (induction al arbitrary: j)
  case Nil
  then show ?case by simp
next
  case (Cons p ps)
  then show ?case by (cases j) auto
qed

lemma main_renames:
  assumes src: "fs experimental_data = Some content"
    and frame: "read_csv pd content = Inr exp_csv"
    and all: "\<forall>row \<in> set exp_csv. mapped name_mapping row"
  shows "main pd fs experimental_data name_mapping output =
           (fs(output \<mapsto> to_csv pd (map (renamed name_mapping) exp_csv)), None)"
proof -
  from all have "\<forall>row \<in> set exp_csv.
      rename name_mapping row = Inr (the (name_mapping (ligand_name row)))"
    by (simp add: rename_mapped)
  from collect_all [OF this] src frame show ?thesis
    by (simp add: main_def set_column_renamed comp_def)
qed

lemma main_first_unmapped:
  assumes src: "fs experimental_data = Some content"
    and frame: "read_csv pd content = Inr (pre @ bad # post)"
    and pre: "\<forall>row \<in> set pre. mapped name_mapping row"
    and col: "\<not> Option.is_none (map_of bad ''Ligand Name'')"
    and bad: "name_mapping (ligand_name bad) = None"
  shows "main pd fs experimental_data name_mapping output =
           (fs, Some (RuntimeError (conversion_error (ligand_name bad))))"
proof -
  from pre have ok: "\<forall>row \<in> set pre.
      rename name_mapping row = Inr (the (name_mapping (ligand_name row)))"
    by (simp add: rename_mapped)
  note e = rename_unmapped [of bad name_mapping, OF col bad]
  from collect_first_error [OF ok e] src frame show ?thesis
    by (simp add: main_def)
qed

text \<open>
  C5, as the specification states it, fails for a row that is not the first one with an
  unmapped name. With the rows \<^verbatim>\<open>LigX\<close> and \<^verbatim>\<open>LigY\<close>, neither in the mapping, the
  utility raises for \<^verbatim>\<open>LigX\<close> and stops: the message does not name \<^verbatim>\<open>LigY\<close>. No file
  is written.
\<close>

theorem main_unmapped_counterexample:
  "main text_pandas
     [''exp.csv'' \<mapsto> [[''Ligand Name'', ''SMILES''], [''LigX'', ''CCO''], [''LigY'', ''CCN'']]]
     ''exp.csv'' [''LigA'' \<mapsto> ''CCD-0001''] ''blinded.csv'' =
     ([''exp.csv'' \<mapsto> [[''Ligand Name'', ''SMILES''], [''LigX'', ''CCO''], [''LigY'', ''CCN'']]],
      Some (RuntimeError ''Could not convert LigX as it was not found in the name mapping.'')) \<and>
   [''LigA'' \<mapsto> ''CCD-0001''] ''LigY'' = None \<and>
   \<not> sublist ''LigY'' ''Could not convert LigX as it was not found in the name mapping.''"
  by (simp add: main_def text_pandas_def frame_of_def rename_def series_get_def bind_err_def
      conversion_error_def sublist_code)

text \<open>
  C5, amended. If the frame read from the input has the column \<^verbatim>\<open>Ligand Name\<close> and some
  row whose name is absent from the mapping, the utility raises a \<^verbatim>\<open>RuntimeError\<close> whose
  message names the exact name of the first such row, and the file system is as it was:
  no output file is written.
\<close>

theorem main_unmapped_name_is_fatal:
  assumes src: "fs experimental_data = Some content"
    and frame: "read_csv pd content = Inr exp_csv"
    and col: "\<forall>row \<in> set exp_csv. \<not> Option.is_none (map_of row ''Ligand Name'')"
    and some: "\<exists>row \<in> set exp_csv. name_mapping (ligand_name row) = None"
  shows "\<exists>pre bad post.
           exp_csv = pre @ bad # post \<and>
           (\<forall>row \<in> set pre. name_mapping (ligand_name row) \<noteq> None) \<and>
           name_mapping (ligand_name bad) = None \<and>
           main pd fs experimental_data name_mapping output =
             (fs, Some (RuntimeError
                (''Could not convert '' @ ligand_name bad @
                 '' as it was not found in the name mapping.'')))"
proof -
  from split_list_first_prop [OF some] obtain pre bad post where
    parts: "exp_csv = pre @ bad # post"
    and bad: "name_mapping (ligand_name bad) = None"
    and pre: "\<forall>row \<in> set pre. name_mapping (ligand_name row) \<noteq> None"
    by blast
  from col parts pre have m: "\<forall>row \<in> set pre. mapped name_mapping row"
    by (auto simp: mapped_def Option.is_none_def)
  from col parts have c: "\<not> Option.is_none (map_of bad ''Ligand Name'')" by simp
  from main_first_unmapped [of fs experimental_data content pd pre bad post name_mapping "output",
      OF src frame [unfolded parts] m c bad]
  have "main pd fs experimental_data name_mapping output =
      (fs, Some (RuntimeError
         (''Could not convert '' @ ligand_name bad @
          '' as it was not found in the name mapping.'')))"
    by (simp add: conversion_error_def)
  with parts pre bad show ?thesis by blast
qed

theorem main_unmapped_name_is_fatal_witness:
  "\<exists>pre bad post.
     [[(''Ligand Name'', Text ''LigA''), (''SMILES'', Text ''CC'')],
      [(''Ligand Name'', Text ''LigX''), (''SMILES'', Text ''CCO'')],
      [(''Ligand Name'', Text ''LigY''), (''SMILES'', Text ''CCN'')]] = pre @ bad # post \<and>
     (\<forall>row \<in> set pre. [''LigA'' \<mapsto> ''CCD-0001''] (ligand_name row) \<noteq> None) \<and>
     [''LigA'' \<mapsto> ''CCD-0001''] (ligand_name bad) = None \<and>
     main text_pandas
       [''exp.csv'' \<mapsto> [[''Ligand Name'', ''SMILES''], [''LigA'', ''CC''], [''LigX'', ''CCO''],
                         [''LigY'', ''CCN'']]]
       ''exp.csv'' [''LigA'' \<mapsto> ''CCD-0001''] ''blinded.csv'' =
       ([''exp.csv'' \<mapsto> [[''Ligand Name'', ''SMILES''], [''LigA'', ''CC''], [''LigX'', ''CCO''],
                          [''LigY'', ''CCN'']]],
        Some (RuntimeError
           (''Could not convert '' @ ligand_name bad @
            '' as it was not found in the name mapping.'')))"
proof -
  let ?content = "[[''Ligand Name'', ''SMILES''], [''LigA'', ''CC''], [''LigX'', ''CCO''],
                   [''LigY'', ''CCN'']]"
  let ?frame = "[[(''Ligand Name'', Text ''LigA''), (''SMILES'', Text ''CC'')],
                 [(''Ligand Name'', Text ''LigX''), (''SMILES'', Text ''CCO'')],
                 [(''Ligand Name'', Text ''LigY''), (''SMILES'', Text ''CCN'')]]"
  have src: "[''exp.csv'' \<mapsto> ?content] ''exp.csv'' = Some ?content" by simp
  have frame: "read_csv text_pandas ?content = Inr ?frame"
    by (simp add: text_pandas_def frame_of_def)
  have col: "\<forall>row \<in> set ?frame. \<not> Option.is_none (map_of row ''Ligand Name'')"
    by simp
  have some: "\<exists>row \<in> set ?frame. [''LigA'' \<mapsto> ''CCD-0001''] (ligand_name row) = None"
    by (simp add: ligand_name_def)
  show ?thesis
    by (rule main_unmapped_name_is_fatal
        [of "[''exp.csv'' \<mapsto> ?content]" "''exp.csv''" ?content text_pandas ?frame
          "[''LigA'' \<mapsto> ''CCD-0001'']" "''blinded.csv''", OF src frame col some])
qed

lemma renamed_frame:
  assumes "mapped name_mapping row"
  shows "map fst (renamed name_mapping row) = map fst row \<and>
         map_of (renamed name_mapping row) ''Ligand Name'' =
           Some (Text (the (name_mapping (ligand_name row)))) \<and>
         (\<forall>j. j < length row \<and> fst (row ! j) \<noteq> ''Ligand Name'' \<longrightarrow>
              renamed name_mapping row ! j = row ! j)"
proof (intro conjI allI impI)
  from assms obtain c where "map_of row ''Ligand Name'' = Some c"
    by (auto simp: mapped_def Option.is_none_def)
  then have "(''Ligand Name'', c) \<in> set row" by (rule map_of_SomeD)
  then have "''Ligand Name'' \<in> fst ` set row" by force
  then show "map fst (renamed name_mapping row) = map fst row"
    by (simp add: renamed_def update_keys)
next
  show "map_of (renamed name_mapping row) ''Ligand Name'' =
      Some (Text (the (name_mapping (ligand_name row))))"
    by (simp add: renamed_def update_conv')
next
  fix j
  assume "j < length row \<and> fst (row ! j) \<noteq> ''Ligand Name''"
  then show "renamed name_mapping row ! j = row ! j"
    by (simp add: renamed_def update_nth_other)
qed

text \<open>
  C8, as the specification states it, fails: what the output file holds in the other
  columns is what \<^verbatim>\<open>pandas\<close> writes for the values it parsed, not the bytes of the
  input. A field \<^verbatim>\<open>1.50\<close> that is parsed as the number 1.5 is written as \<^verbatim>\<open>1.5\<close>.
\<close>

theorem main_other_columns_counterexample:
  "fst (main numeric_pandas [''exp.csv'' \<mapsto> [[''Ligand Name'', ''dG''], [''LigA'', ''1.50'']]]
          ''exp.csv'' [''LigA'' \<mapsto> ''CCD-0001''] ''blinded.csv'') ''blinded.csv'' =
     Some [[''Ligand Name'', ''dG''], [''CCD-0001'', ''1.5'']] \<and>
   snd (main numeric_pandas [''exp.csv'' \<mapsto> [[''Ligand Name'', ''dG''], [''LigA'', ''1.50'']]]
          ''exp.csv'' [''LigA'' \<mapsto> ''CCD-0001''] ''blinded.csv'') = None \<and>
   [[''Ligand Name'', ''dG''], [''CCD-0001'', ''1.5'']] \<noteq>
   [[''Ligand Name'', ''dG''], [''CCD-0001'', ''1.50'']]"
  by (simp add: main_def numeric_pandas_def frame_of_def file_of_def rename_def series_get_def
      bind_err_def set_column_def)

text \<open>
  C8, amended. If the frame read from the input has at least one row and every name of it
  is in the mapping, the utility returns, and what it hands to \<^verbatim>\<open>to_csv\<close> for the output
  path is the frame read from the input with the name of every row replaced by its mapped
  name: the rows are the same in number and order, every row has the same columns in the
  same order, and every cell outside the column \<^verbatim>\<open>Ligand Name\<close> is the cell that was
  read.
\<close>

theorem main_renames_only_the_name_column:
  assumes src: "fs experimental_data = Some content"
    and frame: "read_csv pd content = Inr exp_csv"
    and rows: "exp_csv \<noteq> []"
    and all: "\<forall>row \<in> set exp_csv. mapped name_mapping row"
  shows "main pd fs experimental_data name_mapping output =
           (fs(output \<mapsto> to_csv pd (map (renamed name_mapping) exp_csv)), None) \<and>
         (\<forall>row \<in> set exp_csv.
            map fst (renamed name_mapping row) = map fst row \<and>
            map_of (renamed name_mapping row) ''Ligand Name'' =
              Some (Text (the (name_mapping (ligand_name row)))) \<and>
            (\<forall>j. j < length row \<and> fst (row ! j) \<noteq> ''Ligand Name'' \<longrightarrow>
                 renamed name_mapping row ! j = row ! j))"
proof -
  have m: "main pd fs experimental_data name_mapping output =
      (fs(output \<mapsto> to_csv pd (map (renamed name_mapping) exp_csv)), None)"
    by (rule main_renames [of fs experimental_data content pd exp_csv name_mapping "output",
          OF src frame all])
  have r: "map fst (renamed name_mapping row) = map fst row \<and>
      map_of (renamed name_mapping row) ''Ligand Name'' =
        Some (Text (the (name_mapping (ligand_name row)))) \<and>
      (\<forall>j. j < length row \<and> fst (row ! j) \<noteq> ''Ligand Name'' \<longrightarrow>
           renamed name_mapping row ! j = row ! j)"
    if "row \<in> set exp_csv" for row
    using that all by (simp add: renamed_frame)
  from m r show ?thesis by blast
qed

theorem main_renames_only_the_name_column_witness:
  "main text_pandas [''exp.csv'' \<mapsto> [[''Ligand Name'', ''SMILES''], [''LigA'', ''CCO'']]]
     ''exp.csv'' [''LigA'' \<mapsto> ''CCD-0001''] ''blinded.csv'' =
     ([''exp.csv'' \<mapsto> [[''Ligand Name'', ''SMILES''], [''LigA'', ''CCO'']],
       ''blinded.csv'' \<mapsto> [[''Ligand Name'', ''SMILES''], [''CCD-0001'', ''CCO'']]], None)"
proof -
  let ?content = "[[''Ligand Name'', ''SMILES''], [''LigA'', ''CCO'']]"
  let ?frame = "[[(''Ligand Name'', Text ''LigA''), (''SMILES'', Text ''CCO'')]]"
  have src: "[''exp.csv'' \<mapsto> ?content] ''exp.csv'' = Some ?content" by simp
  have frame: "read_csv text_pandas ?content = Inr ?frame"
    by (simp add: text_pandas_def frame_of_def)
  have rows: "?frame \<noteq> []" by simp
  have all: "\<forall>row \<in> set ?frame. mapped [''LigA'' \<mapsto> ''CCD-0001''] row"
    by (simp add: mapped_def ligand_name_def)
  from main_renames_only_the_name_column
    [of "[''exp.csv'' \<mapsto> ?content]" "''exp.csv''" ?content text_pandas ?frame
      "[''LigA'' \<mapsto> ''CCD-0001'']" "''blinded.csv''", OF src frame rows all]
  have "main text_pandas [''exp.csv'' \<mapsto> ?content] ''exp.csv'' [''LigA'' \<mapsto> ''CCD-0001'']
      ''blinded.csv'' =
      ([''exp.csv'' \<mapsto> ?content,
        ''blinded.csv'' \<mapsto> to_csv text_pandas (map (renamed [''LigA'' \<mapsto> ''CCD-0001'']) ?frame)],
       None)"
    by blast
  then show ?thesis
    by (simp add: text_pandas_def file_of_def renamed_def ligand_name_def)
qed

end
